theory Spec2Isabelle
  imports Complex_Main
begin

section \<open>Values, exceptions and data frames\<close>

text \<open>
  Python floats are idealised as real numbers together with the missing value \<open>NaN\<close>:
  rounding, overflow and the infinities of IEEE arithmetic are not part of the model
  (the only infinities the code writes itself, the two outer bin edges, are modelled
  by \<open>edge\<close> below). Exceptions are values: every \<open>raise\<close> of the source and of the
  library calls it makes is an \<open>Inl\<close> branch. Only subclasses of Python's
  \<open>Exception\<close> are modelled, which is what every \<open>except Exception\<close> of the source
  catches; \<open>ExternalError\<close> stands for whatever the database or a library raises. Calls
  of the logger change no value and are left out.
\<close>

datatype pyfloat = NaN | Num real

datatype exn = ValueError | IndexError | ZeroDivisionError | ExternalError string

definition bind_exn :: "exn + 'a \<Rightarrow> ('a \<Rightarrow> exn + 'b) \<Rightarrow> exn + 'b" where
  "bind_exn m f = (case m of Inl e \<Rightarrow> Inl e | Inr v \<Rightarrow> f v)"

fun isnan :: "pyfloat \<Rightarrow> bool" where
  "isnan NaN = True"
| "isnan (Num r) = False"

text \<open>\<open>a[~np.isnan(a)]\<close>: the entries that are not missing, in order.\<close>

fun dropna :: "pyfloat list \<Rightarrow> real list" where
  "dropna [] = []"
| "dropna (NaN # vs) = dropna vs"
| "dropna (Num r # vs) = r # dropna vs"

text \<open>
  A \<open>pandas.DataFrame\<close>: the number of rows (\<open>len(df)\<close>) and the named columns in
  order. Column names are taken to be distinct, as they are for a frame built from
  feature dictionaries.
\<close>

record frame =
  n_rows :: nat
  columns :: "(string \<times> pyfloat list) list"

definition has_column :: "frame \<Rightarrow> string \<Rightarrow> bool" where
  "has_column df feature = (feature \<in> set (map fst (columns df)))"

definition column_values :: "frame \<Rightarrow> string \<Rightarrow> pyfloat list" where
  "column_values df feature = (case map_of (columns df) feature of Some vs \<Rightarrow> vs | None \<Rightarrow> [])"

section \<open>Statistics primitives (drift\_detector.py)\<close>

record detector =
  psi_threshold :: real
  ks_threshold :: real
  n_bins :: int

text \<open>The defaults of \<open>DriftDetector.__init__\<close> with the thresholds the service passes.\<close>

definition DriftDetector :: "real \<Rightarrow> real \<Rightarrow> detector" where
  "DriftDetector psi_thr ks_thr = \<lparr>psi_threshold = psi_thr, ks_threshold = ks_thr, n_bins = 10\<rparr>"

subsection \<open>Histogram bins\<close>

datatype edge = NegInf | Edge real | PosInf

fun edge_le_val :: "edge \<Rightarrow> real \<Rightarrow> bool" where
  "edge_le_val NegInf v = True"
| "edge_le_val (Edge e) v = (e \<le> v)"
| "edge_le_val PosInf v = False"

fun val_lt_edge :: "real \<Rightarrow> edge \<Rightarrow> bool" where
  "val_lt_edge v NegInf = False"
| "val_lt_edge v (Edge e) = (v < e)"
| "val_lt_edge v PosInf = True"

fun val_le_edge :: "real \<Rightarrow> edge \<Rightarrow> bool" where
  "val_le_edge v NegInf = False"
| "val_le_edge v (Edge e) = (v \<le> e)"
| "val_le_edge v PosInf = True"

fun edge_gt :: "edge \<Rightarrow> edge \<Rightarrow> bool" where
  "edge_gt NegInf b = False"
| "edge_gt (Edge a) NegInf = True"
| "edge_gt (Edge a) (Edge b) = (a > b)"
| "edge_gt (Edge a) PosInf = False"
| "edge_gt PosInf PosInf = False"
| "edge_gt PosInf b = True"

text \<open>
  \<open>np.linspace(start, stop, num)\<close>: \<open>num\<close> evenly spaced points from \<open>start\<close> to
  \<open>stop\<close>; a negative \<open>num\<close> raises \<open>ValueError\<close>, and a single point is \<open>start\<close>.
\<close>

definition linspace :: "real \<Rightarrow> real \<Rightarrow> int \<Rightarrow> exn + real list" where
  "linspace start stop num =
     (if num < 0 then Inl ValueError
      else if num = 1 then Inr [start]
      else Inr (map (\<lambda>i. start + real i * ((stop - start) / real (nat num - 1))) [0..<nat num]))"

text \<open>\<open>bins[0] = -np.inf\<close> and \<open>bins[-1] = np.inf\<close>: an empty array raises \<open>IndexError\<close>.\<close>

definition set_first :: "edge list \<Rightarrow> edge \<Rightarrow> exn + edge list" where
  "set_first bins e = (case bins of [] \<Rightarrow> Inl IndexError | b # bs \<Rightarrow> Inr (e # bs))"

definition set_last :: "edge list \<Rightarrow> edge \<Rightarrow> exn + edge list" where
  "set_last bins e = (if bins = [] then Inl IndexError else Inr (butlast bins @ [e]))"

text \<open>
  \<open>np.histogram(a, bins=edges)\<close> with an array of edges: the edges must not decrease
  (\<open>ValueError\<close> otherwise); every bin is half-open \<open>[lo, hi)\<close> but the last, which is
  closed. Fewer than two edges give no bin.
\<close>

fun increasing_edges :: "edge list \<Rightarrow> bool" where
  "increasing_edges (a # b # es) = (\<not> edge_gt a b \<and> increasing_edges (b # es))"
| "increasing_edges es = True"

fun bin_counts :: "real list \<Rightarrow> edge list \<Rightarrow> nat list" where
  "bin_counts a [lo, hi] = [length (filter (\<lambda>v. edge_le_val lo v \<and> val_le_edge v hi) a)]"
| "bin_counts a (lo # hi # es) =
     length (filter (\<lambda>v. edge_le_val lo v \<and> val_lt_edge v hi) a) # bin_counts a (hi # es)"
| "bin_counts a es = []"

definition histogram :: "real list \<Rightarrow> edge list \<Rightarrow> exn + nat list" where
  "histogram a bins =
     (if increasing_edges bins then Inr (bin_counts a bins) else Inl ValueError)"

subsection \<open>Population stability index\<close>

definition epsilon :: real where
  "epsilon = 1 / 10 ^ 10"

text \<open>The sum over the bins, \<open>np.sum((cur - base) * np.log(cur / base))\<close>.\<close>

definition psi_sum :: "real list \<Rightarrow> real list \<Rightarrow> real" where
  "psi_sum current_percents baseline_percents =
     sum_list (map (\<lambda>(c, b). (c - b) * ln (c / b)) (zip current_percents baseline_percents))"

text \<open>
  The body of the \<open>try\<close> block of \<open>calculate_psi\<close>, on the cleaned samples, which are
  not empty when the block is reached.
\<close>

definition psi_try :: "real list \<Rightarrow> real list \<Rightarrow> int \<Rightarrow> exn + real" where
  "psi_try baseline current nb =
     (let min_val = min (Min (set baseline)) (Min (set current));
          max_val = max (Max (set baseline)) (Max (set current))
      in if min_val = max_val then Inr 0
         else
           bind_exn (linspace min_val max_val (nb + 1)) (\<lambda>pts.
           bind_exn (set_first (map Edge pts) NegInf) (\<lambda>bins0.
           bind_exn (set_last bins0 PosInf) (\<lambda>bins.
           bind_exn (histogram baseline bins) (\<lambda>baseline_counts.
           bind_exn (histogram current bins) (\<lambda>current_counts.
             let baseline_percents =
                   map (\<lambda>k. real k / real (length baseline) + epsilon) baseline_counts;
                 current_percents =
                   map (\<lambda>k. real k / real (length current) + epsilon) current_counts
             in Inr (psi_sum current_percents baseline_percents)))))))"

text \<open>
  \<open>calculate_psi(baseline, current, n_bins=None)\<close>: missing values are dropped, an
  empty sample gives 0.0, and any exception of the \<open>try\<close> block gives 0.0.
\<close>

definition calculate_psi :: "detector \<Rightarrow> pyfloat list \<Rightarrow> pyfloat list \<Rightarrow> int option \<Rightarrow> real" where
  "calculate_psi self baseline0 current0 n_bins_arg =
     (let nb = (case n_bins_arg of None \<Rightarrow> n_bins self | Some n \<Rightarrow> n);
          baseline = dropna baseline0;
          current = dropna current0
      in if length baseline = 0 \<or> length current = 0 then 0
         else (case psi_try baseline current nb of Inl e \<Rightarrow> 0 | Inr psi \<Rightarrow> psi))"

subsection \<open>Kolmogorov-Smirnov test\<close>

text \<open>
  \<open>scipy.stats.ks_2samp\<close> is a library function; it is a parameter of the model, of
  type \<open>ks_lib\<close>, that returns the statistic and the p-value or raises.
\<close>

type_synonym ks_lib = "real list \<Rightarrow> real list \<Rightarrow> exn + (real \<times> real)"

definition ks_test :: "ks_lib \<Rightarrow> pyfloat list \<Rightarrow> pyfloat list \<Rightarrow> real \<times> real" where
  "ks_test ks_2samp baseline0 current0 =
     (let baseline = dropna baseline0;
          current = dropna current0
      in if length baseline = 0 \<or> length current = 0 then (0, 1)
         else (case ks_2samp baseline current of
                 Inl e \<Rightarrow> (0, 1)
               | Inr (statistic, p_value) \<Rightarrow> (statistic, p_value)))"

section \<open>Drift classifier (drift\_detector.py)\<close>

subsection \<open>Summary statistics\<close>

text \<open>
  The \<open>np.nan*\<close> reductions skip missing values. On a sample with no value left they
  return \<open>nan\<close> (with a warning), except \<open>np.nanmin\<close> and \<open>np.nanmax\<close> on an array of
  size zero, which raise \<open>ValueError\<close>.
\<close>

definition nanmean :: "pyfloat list \<Rightarrow> pyfloat" where
  "nanmean a =
     (let xs = dropna a in if xs = [] then NaN else Num (sum_list xs / real (length xs)))"

definition nanstd :: "pyfloat list \<Rightarrow> pyfloat" where
  "nanstd a =
     (let xs = dropna a
      in if xs = [] then NaN
         else (let m = sum_list xs / real (length xs)
               in Num (sqrt (sum_list (map (\<lambda>x. (x - m) ^ 2) xs) / real (length xs)))))"

definition nanmin :: "pyfloat list \<Rightarrow> exn + pyfloat" where
  "nanmin a =
     (if a = [] then Inl ValueError
      else (let xs = dropna a in if xs = [] then Inr NaN else Inr (Num (Min (set xs)))))"

definition nanmax :: "pyfloat list \<Rightarrow> exn + pyfloat" where
  "nanmax a =
     (if a = [] then Inl ValueError
      else (let xs = dropna a in if xs = [] then Inr NaN else Inr (Num (Max (set xs)))))"

definition nanmedian :: "pyfloat list \<Rightarrow> pyfloat" where
  "nanmedian a =
     (let xs = sort (dropna a); n = length xs
      in if n = 0 then NaN
         else if odd n then Num (xs ! (n div 2))
         else Num ((xs ! (n div 2 - 1) + xs ! (n div 2)) / 2))"

record stats =
  st_mean :: pyfloat
  st_std :: pyfloat
  st_min :: pyfloat
  st_max :: pyfloat
  st_median :: pyfloat

definition summary_stats :: "pyfloat list \<Rightarrow> exn + stats" where
  "summary_stats vs =
     bind_exn (nanmin vs) (\<lambda>mn.
     bind_exn (nanmax vs) (\<lambda>mx.
       Inr \<lparr>st_mean = nanmean vs, st_std = nanstd vs, st_min = mn, st_max = mx,
            st_median = nanmedian vs\<rparr>))"

subsection \<open>Python float arithmetic\<close>

fun fl_add :: "pyfloat \<Rightarrow> pyfloat \<Rightarrow> pyfloat" where
  "fl_add (Num a) (Num b) = Num (a + b)"
| "fl_add a b = NaN"

fun fl_sub :: "pyfloat \<Rightarrow> pyfloat \<Rightarrow> pyfloat" where
  "fl_sub (Num a) (Num b) = Num (a - b)"
| "fl_sub a b = NaN"

fun fl_mul :: "pyfloat \<Rightarrow> pyfloat \<Rightarrow> pyfloat" where
  "fl_mul (Num a) (Num b) = Num (a * b)"
| "fl_mul a b = NaN"

text \<open>Division of Python floats raises \<open>ZeroDivisionError\<close> on a zero divisor.\<close>

fun py_truediv :: "pyfloat \<Rightarrow> pyfloat \<Rightarrow> exn + pyfloat" where
  "py_truediv a (Num b) =
     (if b = 0 then Inl ZeroDivisionError
      else (case a of Num x \<Rightarrow> Inr (Num (x / b)) | NaN \<Rightarrow> Inr NaN))"
| "py_truediv a NaN = Inr NaN"

text \<open>\<open>(cur - base) / (base + 1e-10) * 100\<close> on Python floats.\<close>

definition change_pct :: "pyfloat \<Rightarrow> pyfloat \<Rightarrow> exn + pyfloat" where
  "change_pct cur base =
     bind_exn (py_truediv (fl_sub cur base) (fl_add base (Num epsilon))) (\<lambda>q.
       Inr (fl_mul q (Num 100)))"

subsection \<open>Per-feature drift\<close>

datatype drift_status = Stable | Drifted

datatype severity = SevNone | Low | Medium | High

record drift_report =
  feature_name :: string
  drift_score :: real
  drift_method :: string
  threshold :: real
  status :: drift_status
  severity :: severity
  ks_statistic :: real
  ks_p_value :: real
  baseline_stats :: stats
  current_stats :: stats
  mean_change_pct :: pyfloat
  std_change_pct :: pyfloat

text \<open>The block \<open># Determine severity\<close> of the loop body.\<close>

definition determine_severity :: "real \<Rightarrow> severity" where
  "determine_severity psi_score =
     (if psi_score \<ge> 0.5 then High
      else if psi_score \<ge> 0.25 then Medium
      else if psi_score \<ge> 0.1 then Low
      else SevNone)"

text \<open>\<open>'drifted' if psi_drifted else 'stable'\<close> with \<open>psi_drifted = psi_score >= self.psi_threshold\<close>.\<close>

definition determine_status :: "detector \<Rightarrow> real \<Rightarrow> drift_status" where
  "determine_status self psi_score =
     (let psi_drifted = (psi_score \<ge> psi_threshold self)
      in if psi_drifted then Drifted else Stable)"

text \<open>The body of the loop of \<open>detect_feature_drift\<close> for one feature found in both frames.\<close>

definition feature_report ::
  "detector \<Rightarrow> ks_lib \<Rightarrow> string \<Rightarrow> pyfloat list \<Rightarrow> pyfloat list \<Rightarrow> exn + drift_report" where
  "feature_report self ks_2samp feature baseline_values current_values =
     (let psi_score = calculate_psi self baseline_values current_values None;
          (ks_stat, ks_p) = ks_test ks_2samp baseline_values current_values;
          ks_drifted = (ks_p < ks_threshold self)
      in bind_exn (summary_stats baseline_values) (\<lambda>bstats.
         bind_exn (summary_stats current_values) (\<lambda>cstats.
         bind_exn (change_pct (st_mean cstats) (st_mean bstats)) (\<lambda>mean_pct.
         bind_exn (change_pct (st_std cstats) (st_std bstats)) (\<lambda>std_pct.
           Inr \<lparr>feature_name = feature,
                drift_score = psi_score,
                drift_method = ''PSI'',
                threshold = psi_threshold self,
                status = determine_status self psi_score,
                severity = determine_severity psi_score,
                ks_statistic = ks_stat,
                ks_p_value = ks_p,
                baseline_stats = bstats,
                current_stats = cstats,
                mean_change_pct = mean_pct,
                std_change_pct = std_pct\<rparr>)))))"

fun detect_loop ::
  "detector \<Rightarrow> ks_lib \<Rightarrow> frame \<Rightarrow> frame \<Rightarrow> string list \<Rightarrow> exn + drift_report list" where
  "detect_loop self ks_2samp baseline_df current_df [] = Inr []"
| "detect_loop self ks_2samp baseline_df current_df (feature # rest) =
     (if \<not> has_column baseline_df feature \<or> \<not> has_column current_df feature
      then detect_loop self ks_2samp baseline_df current_df rest
      else
        bind_exn (feature_report self ks_2samp feature
                    (column_values baseline_df feature) (column_values current_df feature)) (\<lambda>r.
        bind_exn (detect_loop self ks_2samp baseline_df current_df rest) (\<lambda>rs.
          Inr (r # rs))))"

text \<open>\<open>if feature_names is None: feature_names = list(baseline_df.columns)\<close>.\<close>

definition feature_list :: "frame \<Rightarrow> string list option \<Rightarrow> string list" where
  "feature_list baseline_df feature_names =
     (case feature_names of None \<Rightarrow> map fst (columns baseline_df) | Some ns \<Rightarrow> ns)"

definition detect_feature_drift ::
  "detector \<Rightarrow> ks_lib \<Rightarrow> frame \<Rightarrow> frame \<Rightarrow> string list option \<Rightarrow> exn + drift_report list" where
  "detect_feature_drift self ks_2samp baseline_df current_df feature_names =
     detect_loop self ks_2samp baseline_df current_df (feature_list baseline_df feature_names)"

text \<open>The order of the severity bands, from no drift to high drift.\<close>

fun sev_rank :: "severity \<Rightarrow> nat" where
  "sev_rank SevNone = 0"
| "sev_rank Low = 1"
| "sev_rank Medium = 2"
| "sev_rank High = 3"

subsection \<open>Prediction drift\<close>

record prediction_drift =
  pd_method :: string
  pd_statistic :: real
  pd_p_value :: real
  pd_threshold :: real
  pd_status :: drift_status
  baseline_fraud_rate :: pyfloat
  current_fraud_rate :: pyfloat
  pd_change_pct :: pyfloat

text \<open>\<open>np.mean\<close>: a missing entry makes the mean missing; so does an empty array.\<close>

definition np_mean :: "pyfloat list \<Rightarrow> pyfloat" where
  "np_mean a =
     (if a = [] \<or> (\<exists>v \<in> set a. isnan v) then NaN
      else Num (sum_list (dropna a) / real (length a)))"

text \<open>
  Division of numpy scalars does not raise: a zero divisor gives an infinity or \<open>nan\<close>
  with a warning. The idealised reals have no infinity, so that case is \<open>NaN\<close> here; the
  service only ever divides by \<open>0.02 + 1e-10\<close>.
\<close>

fun np_divide :: "pyfloat \<Rightarrow> pyfloat \<Rightarrow> pyfloat" where
  "np_divide (Num a) (Num b) = (if b = 0 then NaN else Num (a / b))"
| "np_divide a b = NaN"

definition detect_prediction_drift ::
  "detector \<Rightarrow> ks_lib \<Rightarrow> pyfloat list \<Rightarrow> pyfloat list \<Rightarrow> prediction_drift" where
  "detect_prediction_drift self ks_2samp baseline_predictions current_predictions =
     (let (ks_stat, ks_p) = ks_test ks_2samp baseline_predictions current_predictions;
          base_rate = np_mean baseline_predictions;
          cur_rate = np_mean current_predictions;
          pct = fl_mul (np_divide (fl_sub cur_rate base_rate) (fl_add base_rate (Num epsilon)))
                  (Num 100)
      in \<lparr>pd_method = ''KS_test'',
          pd_statistic = ks_stat,
          pd_p_value = ks_p,
          pd_threshold = ks_threshold self,
          pd_status = (if ks_p < ks_threshold self then Drifted else Stable),
          baseline_fraud_rate = base_rate,
          current_fraud_rate = cur_rate,
          pd_change_pct = pct\<rparr>)"

section \<open>Drift orchestrator (monitoring\_service.py)\<close>

record settings =
  PSI_THRESHOLD :: real
  KS_THRESHOLD :: real
  DRIFT_WINDOW_HOURS :: int
  MODEL_VERSION :: string

text \<open>The values of config.py when the environment sets nothing.\<close>

definition default_settings :: settings where
  "default_settings =
     \<lparr>PSI_THRESHOLD = 0.25, KS_THRESHOLD = 0.05, DRIFT_WINDOW_HOURS = 1,
      MODEL_VERSION = ''xgb_v1.0.0''\<rparr>"

text \<open>
  The \<open>features\<close> column of a stored prediction is a dictionary from feature names to
  numbers. \<open>pd.DataFrame(features_list)\<close> has one row per dictionary and one column per
  key, in order of first appearance, with \<open>nan\<close> where a dictionary lacks the key;
  \<open>pd.DataFrame()\<close> is the frame with no row and no column.
\<close>

type_synonym features = "(string \<times> pyfloat) list"

definition DataFrame :: "features list \<Rightarrow> frame" where
  "DataFrame features_list =
     (let names = rev (remdups (rev (concat (map (map fst) features_list))))
      in \<lparr>n_rows = length features_list,
          columns = map (\<lambda>k. (k, map (\<lambda>row. case map_of row k of Some v \<Rightarrow> v | None \<Rightarrow> NaN)
                                      features_list)) names\<rparr>)"

definition empty_DataFrame :: frame where
  "empty_DataFrame = \<lparr>n_rows = 0, columns = []\<rparr>"

record perf =
  accuracy :: "real option"
  precision :: "real option"
  recall :: "real option"
  f1_score :: "real option"
  auc_roc :: "real option"

definition null_metrics :: perf where
  "null_metrics =
     \<lparr>accuracy = None, precision = None, recall = None, f1_score = None, auc_roc = None\<rparr>"

record status_block =
  health :: string
  data_drift_detected :: bool
  concept_drift_detected :: bool
  performance_degraded :: bool

text \<open>
  An alert. The source's \<open>id\<close> is the text \<open>alert_\<close> followed by \<open>alert_number\<close>, and its
  \<open>message\<close> is a sentence that prints the three parts of \<open>alert_message\<close> (feature name,
  PSI score, threshold); number formatting is not modelled.
\<close>

record alert =
  alert_number :: int
  alert_type :: string
  alert_severity :: severity
  alert_message :: "string \<times> real \<times> real"
  triggered_at :: int
  recommendation :: string

text \<open>
  The report. \<open>time_window\<close> is the pair of instants the source prints into a string, and
  \<open>performance_metrics\<close> is \<open>None\<close> for the empty dictionary of the empty report.
\<close>

record monitoring_report =
  report_timestamp :: int
  time_window :: "int \<times> int"
  total_predictions :: nat
  model_version :: string
  overall_status :: status_block
  feature_drift :: "drift_report list"
  prediction_drift :: "prediction_drift option"
  performance_metrics :: "perf option"
  alerts :: "alert list"

text \<open>
  What one call of the service sees of the world outside it: the clock (\<open>utcnow k\<close> is
  the \<open>k\<close>-th reading, in seconds), the results of its database queries, the synthetic
  baseline generator, the libraries and Python's string hash.
\<close>

record sklearn =
  import_metrics :: "exn + unit"
  accuracy_score :: "int list \<Rightarrow> int list \<Rightarrow> exn + real"
  precision_score :: "int list \<Rightarrow> int list \<Rightarrow> exn + real"
  recall_score :: "int list \<Rightarrow> int list \<Rightarrow> exn + real"
  f1_score_fn :: "int list \<Rightarrow> int list \<Rightarrow> exn + real"
  roc_auc_score :: "int list \<Rightarrow> pyfloat list \<Rightarrow> exn + real"

record env =
  utcnow :: "nat \<Rightarrow> int"
  db_first_predictions :: "exn + features list"
  generate_baseline_data :: "nat \<Rightarrow> exn + frame"
  db_window_predictions :: "int \<Rightarrow> int \<Rightarrow> exn + features list"
  db_window_probas :: "int \<Rightarrow> int \<Rightarrow> exn + pyfloat list"
  db_labeled_results :: "int \<Rightarrow> int \<Rightarrow> exn + (int \<times> pyfloat \<times> int) list"
  ks_2samp :: ks_lib
  sk :: sklearn
  py_hash :: "string \<Rightarrow> int"

definition get_baseline_features :: "env \<Rightarrow> exn + frame" where
  "get_baseline_features w =
     bind_exn (db_first_predictions w) (\<lambda>predictions.
       if predictions = [] then generate_baseline_data w 1000
       else Inr (DataFrame predictions))"

definition get_current_features :: "env \<Rightarrow> int \<Rightarrow> int \<Rightarrow> exn + frame" where
  "get_current_features w start_time end_time =
     bind_exn (db_window_predictions w start_time end_time) (\<lambda>predictions.
       if predictions = [] then Inr empty_DataFrame
       else Inr (DataFrame predictions))"

definition get_predictions :: "env \<Rightarrow> int \<Rightarrow> int \<Rightarrow> exn + pyfloat list" where
  "get_predictions w start_time end_time = db_window_probas w start_time end_time"

text \<open>
  \<open>_calculate_performance_metrics\<close>: the import stands before the \<open>try\<close>, so only an
  import failure leaves the function; every other exception gives the all-null metrics.
\<close>

definition metrics_try :: "env \<Rightarrow> int \<Rightarrow> int \<Rightarrow> exn + perf" where
  "metrics_try w start_time end_time =
     bind_exn (db_labeled_results w start_time end_time) (\<lambda>results.
       if results = [] then Inr null_metrics
       else
         (let y_pred = map fst results;
              y_proba = map (\<lambda>r. fst (snd r)) results;
              y_true = map (\<lambda>r. snd (snd r)) results
          in bind_exn (accuracy_score (sk w) y_true y_pred) (\<lambda>acc.
             bind_exn (precision_score (sk w) y_true y_pred) (\<lambda>prec.
             bind_exn (recall_score (sk w) y_true y_pred) (\<lambda>rec.
             bind_exn (f1_score_fn (sk w) y_true y_pred) (\<lambda>f1.
             bind_exn (if length (remdups y_true) > 1
                       then bind_exn (roc_auc_score (sk w) y_true y_proba) (\<lambda>a. Inr (Some a))
                       else Inr None) (\<lambda>auc.
               Inr \<lparr>accuracy = Some acc, precision = Some prec, recall = Some rec,
                    f1_score = Some f1, auc_roc = auc\<rparr>)))))))"

definition calculate_performance_metrics :: "env \<Rightarrow> int \<Rightarrow> int \<Rightarrow> exn + perf" where
  "calculate_performance_metrics w start_time end_time =
     bind_exn (import_metrics (sk w)) (\<lambda>u.
       case metrics_try w start_time end_time of
         Inl e \<Rightarrow> Inr null_metrics
       | Inr m \<Rightarrow> Inr m)"

definition get_recommendation :: "drift_report \<Rightarrow> string" where
  "get_recommendation r =
     (if severity r = High
      then ''Investigate '' @ feature_name r @ '' data pipeline. Consider retraining model.''
      else if severity r = Medium
      then ''Monitor '' @ feature_name r @ '' closely. Plan retraining.''
      else ''Continue monitoring.'')"

text \<open>
  \<open>_generate_alerts\<close>: one alert per feature report of severity high or medium, in
  order; \<open>k\<close> counts the clock readings made so far.
\<close>

fun generate_alerts_loop :: "env \<Rightarrow> nat \<Rightarrow> drift_report list \<Rightarrow> alert list" where
  "generate_alerts_loop w k [] = []"
| "generate_alerts_loop w k (r # rs) =
     (if severity r \<in> set [High, Medium]
      then \<lparr>alert_number = py_hash w (feature_name r) mod 10000,
            alert_type = ''data_drift'',
            alert_severity = severity r,
            alert_message = (feature_name r, drift_score r, threshold r),
            triggered_at = utcnow w k,
            recommendation = get_recommendation r\<rparr> # generate_alerts_loop w (Suc k) rs
      else generate_alerts_loop w k rs)"

definition generate_alerts ::
  "env \<Rightarrow> drift_report list \<Rightarrow> prediction_drift option \<Rightarrow> alert list" where
  "generate_alerts w feature_drift_reports pred_drift =
     generate_alerts_loop w 1 feature_drift_reports"

text \<open>
  \<open>try: body except Exception as e: logger.error(...)\<close>, the shape of
  \<open>_store_drift_report\<close>: whatever the body raises is caught, and the statement ends
  normally.
\<close>

definition try_log_error :: "exn + unit \<Rightarrow> exn + unit" where
  "try_log_error body = (case body of Inl e \<Rightarrow> Inr () | Inr u \<Rightarrow> Inr ())"

text \<open>
  \<open>_store_drift_report(report)\<close>: the body of its \<open>try\<close> is \<open>pass\<close>, so the function
  writes nothing and returns \<open>None\<close>.
\<close>

definition store_drift_report :: "monitoring_report \<Rightarrow> exn + unit" where
  "store_drift_report report = try_log_error (Inr ())"

definition empty_report :: "env \<Rightarrow> settings \<Rightarrow> int \<Rightarrow> int \<Rightarrow> monitoring_report" where
  "empty_report w cfg start_time end_time =
     \<lparr>report_timestamp = utcnow w 1,
      time_window = (start_time, end_time),
      total_predictions = 0,
      model_version = MODEL_VERSION cfg,
      overall_status =
        \<lparr>health = ''unknown'', data_drift_detected = False, concept_drift_detected = False,
         performance_degraded = False\<rparr>,
      feature_drift = [],
      prediction_drift = None,
      performance_metrics = None,
      alerts = []\<rparr>"

text \<open>The block \<open># Determine overall status\<close> of \<open>get_drift_report\<close>.\<close>

definition data_drift :: "drift_report list \<Rightarrow> bool" where
  "data_drift feature_drift_reports = (\<exists>r \<in> set feature_drift_reports. status r = Drifted)"

definition concept_drift :: "prediction_drift option \<Rightarrow> bool" where
  "concept_drift pred_drift =
     (case pred_drift of None \<Rightarrow> False | Some d \<Rightarrow> pd_status d = Drifted)"

definition high_severity_count :: "drift_report list \<Rightarrow> nat" where
  "high_severity_count feature_drift_reports =
     length (filter (\<lambda>r. severity r = High) feature_drift_reports)"

definition determine_overall_status :: "drift_report list \<Rightarrow> prediction_drift option \<Rightarrow> string" where
  "determine_overall_status feature_drift_reports pred_drift =
     (if high_severity_count feature_drift_reports \<ge> 2 then ''critical''
      else if data_drift feature_drift_reports \<or> concept_drift pred_drift then ''warning''
      else ''healthy'')"

text \<open>
  \<open>get_drift_report(hours)\<close>. The time window is \<open>hours\<close> hours back from the first
  clock reading. The \<open>except\<close> clause of the source logs and raises the exception again,
  so a failure of any step is the failure of the call. The series
  \<open>baseline_predictions\<close> that the source builds and never uses is left out.
\<close>

definition drift_window :: "settings \<Rightarrow> env \<Rightarrow> int option \<Rightarrow> int \<times> int" where
  "drift_window cfg w hours_arg =
     (let hours = (case hours_arg of None \<Rightarrow> DRIFT_WINDOW_HOURS cfg | Some h \<Rightarrow> h);
          end_time = utcnow w 0;
          start_time = end_time - hours * 3600
      in (start_time, end_time))"

definition get_drift_report :: "settings \<Rightarrow> env \<Rightarrow> int option \<Rightarrow> exn + monitoring_report" where
  "get_drift_report cfg w hours_arg =
     (let self = DriftDetector (PSI_THRESHOLD cfg) (KS_THRESHOLD cfg);
          (start_time, end_time) = drift_window cfg w hours_arg
      in bind_exn (get_baseline_features w) (\<lambda>baseline_df.
         bind_exn (get_current_features w start_time end_time) (\<lambda>current_df.
           if n_rows current_df = 0 then Inr (empty_report w cfg start_time end_time)
           else
             bind_exn (detect_feature_drift self (ks_2samp w) baseline_df current_df None)
               (\<lambda>feature_drift_reports.
             bind_exn (get_predictions w start_time end_time) (\<lambda>current_predictions.
               let pred_drift =
                     (if length current_predictions > 0
                      then Some (detect_prediction_drift self (ks_2samp w)
                                   (replicate (length current_predictions) (Num 0.02))
                                   current_predictions)
                      else None)
               in bind_exn (calculate_performance_metrics w start_time end_time) (\<lambda>metrics.
                    let alerts_list = generate_alerts w feature_drift_reports pred_drift;
                        report =
                          \<lparr>report_timestamp = utcnow w (Suc (length alerts_list)),
                           time_window = (start_time, end_time),
                           total_predictions = n_rows current_df,
                           model_version = MODEL_VERSION cfg,
                           overall_status =
                             \<lparr>health = determine_overall_status feature_drift_reports pred_drift,
                              data_drift_detected = data_drift feature_drift_reports,
                              concept_drift_detected = concept_drift pred_drift,
                              performance_degraded = False\<rparr>,
                           feature_drift = feature_drift_reports,
                           prediction_drift = pred_drift,
                           performance_metrics = Some metrics,
                           alerts = alerts_list\<rparr>
                    in bind_exn (store_drift_report report) (\<lambda>u. Inr report)))))))"

section \<open>Monitoring cycle scheduler (worker.py)\<close>

text \<open>
  The worker acts on the world only through calls on its database session and on
  \<open>psutil\<close>. A run is described by the outcome of each such call (\<open>world\<close>) and leaves the
  list of the calls it made, in order. The statements \<open>from sqlalchemy import text\<close>
  inside the steps are not calls: the module header has already imported that package.
\<close>

datatype call =
    NewSession
  | CountPredictions
  | CountLabels
  | SelectAccuracy
  | InsertMetrics int int "real option"
  | SelectAvgProba
  | InsertAlert real
  | ImportPsutil
  | CpuPercent
  | VirtualMemory
  | InsertHealth real real
  | Commit
  | Rollback
  | Close

record world =
  w_session :: "exn + unit"
  w_pred_count :: "exn + int option"
  w_label_count :: "exn + int option"
  w_accuracy :: "exn + real option option"
  w_insert_metrics :: "exn + unit"
  w_avg_proba :: "exn + real option option"
  w_insert_alert :: "exn + unit"
  w_import_psutil :: "exn + unit"
  w_cpu_percent :: "exn + real"
  w_virtual_memory :: "exn + real"
  w_insert_health :: "exn + unit"
  w_commit :: "exn + unit"
  w_rollback :: "exn + unit"
  w_close :: "exn + unit"

type_synonym 'a io = "call list \<Rightarrow> (exn + 'a) \<times> call list"

definition do_call :: "call \<Rightarrow> exn + 'a \<Rightarrow> 'a io" where
  "do_call c outcome tr = (outcome, tr @ [c])"

definition io_return :: "'a \<Rightarrow> 'a io" where
  "io_return v tr = (Inr v, tr)"

definition io_bind :: "'a io \<Rightarrow> ('a \<Rightarrow> 'b io) \<Rightarrow> 'b io" where
  "io_bind m f tr = (case m tr of (Inl e, tr') \<Rightarrow> (Inl e, tr') | (Inr v, tr') \<Rightarrow> f v tr')"

text \<open>\<open>try: body except Exception as e: handler\<close>.\<close>

definition try_except :: "'a io \<Rightarrow> (exn \<Rightarrow> 'a io) \<Rightarrow> 'a io" where
  "try_except body handler tr =
     (case body tr of (Inl e, tr') \<Rightarrow> handler e tr' | (Inr v, tr') \<Rightarrow> (Inr v, tr'))"

text \<open>
  \<open>try: body finally: fin\<close>: \<open>fin\<close> always runs; an exception of \<open>fin\<close> replaces the
  outcome of \<open>body\<close>.
\<close>

definition try_finally :: "'a io \<Rightarrow> unit io \<Rightarrow> 'a io" where
  "try_finally body fin tr =
     (case body tr of (r, tr') \<Rightarrow>
        (case fin tr' of (Inl e, tr'') \<Rightarrow> (Inl e, tr'') | (Inr u, tr'') \<Rightarrow> (r, tr'')))"

text \<open>
  \<open>_calculate_metrics\<close>. \<open>fetchone()\<close> gives a row or \<open>None\<close>; the accuracy is kept only
  when the row and its value are truthy.
\<close>

definition calculate_metrics :: "world \<Rightarrow> unit io" where
  "calculate_metrics w =
     try_except
       (io_bind (do_call CountPredictions (w_pred_count w)) (\<lambda>result1.
          let predictions_count = (case result1 of Some n \<Rightarrow> n | None \<Rightarrow> 0)
          in io_bind (do_call CountLabels (w_label_count w)) (\<lambda>result2.
               let labels_count = (case result2 of Some n \<Rightarrow> n | None \<Rightarrow> 0)
               in io_bind
                    (if labels_count > 0
                     then io_bind (do_call SelectAccuracy (w_accuracy w)) (\<lambda>result3.
                            io_return (case result3 of
                                         Some (Some a) \<Rightarrow> if a \<noteq> 0 then Some a else None
                                       | Some None \<Rightarrow> None
                                       | None \<Rightarrow> None))
                     else io_return None)
                    (\<lambda>acc.
                       do_call (InsertMetrics predictions_count labels_count acc)
                         (w_insert_metrics w)))))
       (\<lambda>e. io_return ())"

text \<open>\<open>_check_drift\<close>: an alert is inserted when the mean probability is off by more than 0.03.\<close>

definition check_drift :: "world \<Rightarrow> unit io" where
  "check_drift w =
     try_except
       (io_bind (do_call SelectAvgProba (w_avg_proba w)) (\<lambda>result.
          case result of
            Some (Some avg_proba) \<Rightarrow>
              if avg_proba \<noteq> 0
              then (let baseline_fraud_rate = 0.02
                    in if \<bar>avg_proba - baseline_fraud_rate\<bar> > 0.03
                       then do_call (InsertAlert avg_proba) (w_insert_alert w)
                       else io_return ())
              else io_return ()
          | Some None \<Rightarrow> io_return ()
          | None \<Rightarrow> io_return ()))
       (\<lambda>e. io_return ())"

text \<open>\<open>_update_system_health\<close>: \<open>import psutil\<close> stands before the \<open>try\<close>.\<close>

definition update_system_health :: "world \<Rightarrow> unit io" where
  "update_system_health w =
     io_bind (do_call ImportPsutil (w_import_psutil w)) (\<lambda>u.
       try_except
         (io_bind (do_call CpuPercent (w_cpu_percent w)) (\<lambda>cpu_usage.
          io_bind (do_call VirtualMemory (w_virtual_memory w)) (\<lambda>memory_usage.
            do_call (InsertHealth cpu_usage memory_usage) (w_insert_health w))))
         (\<lambda>e. io_return ()))"

text \<open>
  \<open>run_monitoring_cycle\<close>: the session is made before the \<open>try\<close>; the handler rolls
  back; \<open>finally\<close> closes the session.
\<close>

definition run_monitoring_cycle :: "world \<Rightarrow> unit io" where
  "run_monitoring_cycle w =
     io_bind (do_call NewSession (w_session w)) (\<lambda>session.
       try_finally
         (try_except
            (io_bind (calculate_metrics w) (\<lambda>u1.
             io_bind (check_drift w) (\<lambda>u2.
             io_bind (update_system_health w) (\<lambda>u3.
               do_call Commit (w_commit w)))))
            (\<lambda>e. do_call Rollback (w_rollback w)))
         (do_call Close (w_close w)))"

text \<open>The first call of each of the three steps.\<close>

fun is_step_entry :: "call \<Rightarrow> bool" where
  "is_step_entry CountPredictions = True"
| "is_step_entry SelectAvgProba = True"
| "is_step_entry ImportPsutil = True"
| "is_step_entry c = False"

text \<open>
  \<open>start\<close>. It first runs one cycle directly, outside any \<open>try\<close>, then registers the
  cycle with the scheduler and enters the loop. Each round of the loop runs
  \<open>schedule.run_pending()\<close> inside a \<open>try\<close>: nothing may be due (\<open>Idle\<close>), or a cycle is
  due and runs in the world of that moment (\<open>Due\<close>), its exception passing through
  \<open>run_pending\<close>, or the user interrupts (\<open>Interrupt\<close>). \<open>KeyboardInterrupt\<close> is not an
  \<open>Exception\<close>: its handler leaves the loop, while the handler of \<open>Exception\<close> logs, sleeps
  and goes on. The state of the worker after a finite number of rounds is \<open>Running\<close> when
  the loop is still going, \<open>Stopped\<close> when the user has ended it, and \<open>Crashed\<close> when an
  exception has left \<open>start\<close>. The sleeps are left out.
\<close>

datatype signal = Returned | Raised exn | KeyboardInterrupt

datatype round = Idle | Due world | Interrupt

datatype worker_state = Running | Stopped | Crashed exn

definition run_pending :: "round \<Rightarrow> signal" where
  "run_pending r =
     (case r of
        Idle \<Rightarrow> Returned
      | Due w \<Rightarrow> (case fst (run_monitoring_cycle w []) of Inl e \<Rightarrow> Raised e | Inr u \<Rightarrow> Returned)
      | Interrupt \<Rightarrow> KeyboardInterrupt)"

fun main_loop :: "round list \<Rightarrow> worker_state" where
  "main_loop [] = Running"
| "main_loop (r # rounds) =
     (case run_pending r of
        KeyboardInterrupt \<Rightarrow> Stopped
      | Raised e \<Rightarrow> main_loop rounds
      | Returned \<Rightarrow> main_loop rounds)"

definition start :: "world \<Rightarrow> round list \<Rightarrow> worker_state" where
  "start first rounds =
     (case fst (run_monitoring_cycle first []) of
        Inl e \<Rightarrow> Crashed e
      | Inr u \<Rightarrow> main_loop rounds)"

section \<open>Sample inputs\<close>

text \<open>
  Concrete inputs on which the theorems below are exercised: a library outcome with a
  significant p-value, a one-row frame and a two-row frame.
\<close>

definition sample_ks :: ks_lib where
  "sample_ks b c = Inr (1 / 2, 1 / 100)"

definition flat_frame :: frame where
  "flat_frame = \<lparr>n_rows = 1, columns = [(''amount'', [Num 1])]\<rparr>"

definition sample_frame :: frame where
  "sample_frame = \<lparr>n_rows = 2, columns = [(''amount'', [Num 1, Num 2])]\<rparr>"

text \<open>
  A world for the service: ten stored predictions as the baseline, a window of
  predictions, one labelled pair on which every metric is zero, and a KS library that
  finds no significant difference.
\<close>

definition sample_sklearn :: sklearn where
  "sample_sklearn =
     \<lparr>import_metrics = Inr (),
      accuracy_score = (\<lambda>t p. Inr 0),
      precision_score = (\<lambda>t p. Inr 0),
      recall_score = (\<lambda>t p. Inr 0),
      f1_score_fn = (\<lambda>t p. Inr 0),
      roc_auc_score = (\<lambda>t p. Inr 0)\<rparr>"

definition calm_ks :: ks_lib where
  "calm_ks b c = (if b = c then Inr (0, 1) else Inr (2 / 5, 2 / 5))"

definition sample_env :: "features list \<Rightarrow> features list \<Rightarrow> env" where
  "sample_env first_rows window_rows =
     \<lparr>utcnow = (\<lambda>k. 1700000000 + int k),
      db_first_predictions = Inr first_rows,
      generate_baseline_data = (\<lambda>n. Inl (ExternalError ''generator not available'')),
      db_window_predictions = (\<lambda>s e. Inr window_rows),
      db_window_probas = (\<lambda>s e. Inr (map (\<lambda>r. Num 0.02) window_rows)),
      db_labeled_results = (\<lambda>s e. Inr [(1, Num 0.9, 0)]),
      ks_2samp = calm_ks,
      sk = sample_sklearn,
      py_hash = (\<lambda>s. int (length s))\<rparr>"

definition half_rows :: "features list" where
  "half_rows = map (\<lambda>v. [(''amount'', Num v)]) [0, 0, 0, 0, 0, 1, 1, 1, 1, 1]"

definition skewed_rows :: "features list" where
  "skewed_rows = map (\<lambda>v. [(''amount'', Num v)]) [0, 0, 0, 0, 0, 0, 0, 0, 0, 1]"

text \<open>The same two windows with a second feature, \<open>hour\<close>, that moves with the first.\<close>

definition half_rows2 :: "features list" where
  "half_rows2 = map (\<lambda>v. [(''amount'', Num v), (''hour'', Num v)]) [0, 0, 0, 0, 0, 1, 1, 1, 1, 1]"

definition skewed_rows2 :: "features list" where
  "skewed_rows2 = map (\<lambda>v. [(''amount'', Num v), (''hour'', Num v)]) [0, 0, 0, 0, 0, 0, 0, 0, 0, 1]"

text \<open>
  Two worlds for the worker: one where the first query of the first step fails, and one
  where every step succeeds but the commit and then the rollback fail.
\<close>

definition failing_world :: world where
  "failing_world =
     \<lparr>w_session = Inr (),
      w_pred_count = Inl (ExternalError ''connection lost''),
      w_label_count = Inr (Some 0),
      w_accuracy = Inr None,
      w_insert_metrics = Inr (),
      w_avg_proba = Inr (Some (Some (1 / 2))),
      w_insert_alert = Inr (),
      w_import_psutil = Inr (),
      w_cpu_percent = Inr 12,
      w_virtual_memory = Inr 40,
      w_insert_health = Inr (),
      w_commit = Inr (),
      w_rollback = Inr (),
      w_close = Inr ()\<rparr>"

definition broken_session_world :: world where
  "broken_session_world =
     failing_world\<lparr>w_pred_count := Inr (Some 3),
                    w_commit := Inl (ExternalError ''commit failed''),
                    w_rollback := Inl (ExternalError ''rollback failed'')\<rparr>"

section \<open>Properties of the statistics primitives\<close>

lemma bind_exn_Inr_iff:
  "bind_exn m f = Inr y \<longleftrightarrow> (\<exists>v. m = Inr v \<and> f v = Inr y)"
  by (cases m) (simp_all add: bind_exn_def)

lemma bind_exn_simps [simp]:
  "bind_exn (Inl e) f = Inl e" "bind_exn (Inr v) f = f v"
  by (simp_all add: bind_exn_def)

lemma psi_term_nonneg:
  assumes "0 < (c::real)" "0 < b"
  shows "0 \<le> (c - b) * ln (c / b)"
proof (cases "b \<le> c")
  case True
  then have "1 \<le> c / b" using assms by (simp add: field_simps)
  then have "0 \<le> ln (c / b)" by simp
  with True show ?thesis by simp
next
  case False
  then have "c / b < 1" using assms by (simp add: field_simps)
  moreover have "0 < c / b" using assms by simp
  ultimately have "ln (c / b) \<le> 0" by simp
  moreover have "c - b \<le> 0" using False by simp
  ultimately show ?thesis by (simp add: mult_nonpos_nonpos)
qed

lemma psi_sum_nonneg:
  assumes "\<forall>c \<in> set cs. 0 < c" "\<forall>b \<in> set bs. 0 < b"
  shows "0 \<le> psi_sum cs bs"
  unfolding psi_sum_def
proof (rule sum_list_nonneg)
  fix t assume "t \<in> set (map (\<lambda>(c, b). (c - b) * ln (c / b)) (zip cs bs))"
  then obtain c b where cb: "(c, b) \<in> set (zip cs bs)" and t: "t = (c - b) * ln (c / b)"
    by auto
  from cb have "c \<in> set cs" "b \<in> set bs" by (auto dest: set_zip_leftD set_zip_rightD)
  with assms have "0 < c" "0 < b" by auto
  with t show "0 \<le> t" by (simp add: psi_term_nonneg)
qed

lemma psi_sum_self: "psi_sum xs xs = 0"
  unfolding psi_sum_def by (induction xs) simp_all

lemma epsilon_pos: "0 < epsilon"
  by (simp add: epsilon_def)

lemma psi_try_nonneg:
  assumes "psi_try baseline current nb = Inr p"
  shows "0 \<le> p"
proof (cases "min (Min (set baseline)) (Min (set current)) = max (Max (set baseline)) (Max (set current))")
  case True
  with assms show ?thesis by (simp add: psi_try_def Let_def)
next
  case False
  with assms obtain bc cc where
    p: "p = psi_sum (map (\<lambda>k. real k / real (length current) + epsilon) cc)
                    (map (\<lambda>k. real k / real (length baseline) + epsilon) bc)"
    by (auto simp: psi_try_def Let_def bind_exn_Inr_iff)
  show ?thesis unfolding p
    by (rule psi_sum_nonneg) (auto intro!: add_nonneg_pos simp: epsilon_pos)
qed

lemma psi_try_self:
  assumes "psi_try x x nb = Inr p"
  shows "p = 0"
proof (cases "min (Min (set x)) (Min (set x)) = max (Max (set x)) (Max (set x))")
  case True
  with assms show ?thesis by (simp add: psi_try_def Let_def)
next
  case False
  with assms obtain bc cc bins where
    "histogram x bins = Inr bc" "histogram x bins = Inr cc"
    and p: "p = psi_sum (map (\<lambda>k. real k / real (length x) + epsilon) cc)
                    (map (\<lambda>k. real k / real (length x) + epsilon) bc)"
    by (auto simp: psi_try_def Let_def bind_exn_Inr_iff)
  then have "bc = cc" by simp
  with p show ?thesis by (simp add: psi_sum_self)
qed

lemma calculate_psi_nonneg: "0 \<le> calculate_psi self b c n"
  by (auto simp: calculate_psi_def Let_def psi_try_nonneg split: sum.splits)

lemma calculate_psi_self: "calculate_psi self x x n = 0"
  by (auto simp: calculate_psi_def Let_def psi_try_self split: sum.splits)

lemma dropna_map_Num [simp]: "dropna (map Num xs) = xs"
  by (induction xs) simp_all

lemma calculate_psi_cleaned:
  "calculate_psi self b c n = calculate_psi self (map Num (dropna b)) (map Num (dropna c)) n"
  by (simp add: calculate_psi_def)

lemma calculate_psi_empty:
  "dropna b = [] \<or> dropna c = [] \<Longrightarrow> calculate_psi self b c n = 0"
  by (auto simp: calculate_psi_def)

lemma Min_all_eq:
  assumes "xs \<noteq> []" "\<forall>x \<in> set xs. x = v"
  shows "Min (set xs) = v" "Max (set xs) = v"
proof -
  from assms have "set xs = {v}" by (cases xs) auto
  then show "Min (set xs) = v" "Max (set xs) = v" by simp_all
qed

lemma calculate_psi_identical:
  assumes "\<forall>x \<in> set (dropna b) \<union> set (dropna c). x = v"
  shows "calculate_psi self b c n = 0"
proof (cases "dropna b = [] \<or> dropna c = []")
  case True
  then show ?thesis by (rule calculate_psi_empty)
next
  case False
  then have ne: "dropna b \<noteq> []" "dropna c \<noteq> []" by simp_all
  from assms have "\<forall>x \<in> set (dropna b). x = v" "\<forall>x \<in> set (dropna c). x = v" by auto
  with ne have "Min (set (dropna b)) = v" "Max (set (dropna b)) = v"
    "Min (set (dropna c)) = v" "Max (set (dropna c)) = v"
    by (simp_all add: Min_all_eq)
  then have "psi_try (dropna b) (dropna c) (case n of None \<Rightarrow> n_bins self | Some k \<Rightarrow> k) = Inr 0"
    by (simp add: psi_try_def)
  with ne show ?thesis by (simp add: calculate_psi_def)
qed


lemma ks_test_cases:
  "ks_test ks b c = (0, 1) \<or> (\<exists>s p. ks (dropna b) (dropna c) = Inr (s, p) \<and> ks_test ks b c = (s, p))"
  by (auto simp: ks_test_def Let_def split: sum.splits)

text \<open>
  Claim C5. \<open>calculate_psi\<close> first drops the missing values of both inputs (its result
  is that of the cleaned samples); when either cleaned sample is empty it returns 0.0,
  and when all values of the two cleaned samples are one and the same value it returns
  0.0. The function is total: it returns a number on every input.
\<close>

theorem psi_neutral_cases:
  "calculate_psi self baseline current n =
     calculate_psi self (map Num (dropna baseline)) (map Num (dropna current)) n \<and>
   (dropna baseline = [] \<or> dropna current = [] \<longrightarrow> calculate_psi self baseline current n = 0) \<and>
   ((\<forall>x \<in> set (dropna baseline) \<union> set (dropna current). x = v)
      \<longrightarrow> calculate_psi self baseline current n = 0)"
  using calculate_psi_cleaned[of self baseline current n]
    calculate_psi_empty[of baseline current self n]
    calculate_psi_identical[of baseline current v self n]
  by blast

theorem psi_neutral_cases_witness:
  "dropna [NaN, NaN] = [] \<and>
   calculate_psi (DriftDetector 0.25 0.05) [NaN, NaN] [Num 1, Num 3] None = 0 \<and>
   dropna [Num 2, NaN, Num 2] = [2, 2] \<and>
   calculate_psi (DriftDetector 0.25 0.05) [Num 2, NaN, Num 2] [Num 2] (Some 4) = 0"
  using psi_neutral_cases[of "DriftDetector 0.25 0.05" "[NaN, NaN]" "[Num 1, Num 3]" None 0]
    psi_neutral_cases[of "DriftDetector 0.25 0.05" "[Num 2, NaN, Num 2]" "[Num 2]" "Some 4" 2]
  by simp

text \<open>
  Claim C7. \<open>calculate_psi\<close> is never negative, on any input and for any bin count.
  \<open>ks_test\<close> returns a statistic and a p-value in the unit interval, given that the
  library function \<open>ks_2samp\<close> does so whenever it returns: the values \<open>ks_test\<close> adds
  itself, for an empty sample and for a library exception, are \<open>(0.0, 1.0)\<close>.
\<close>

theorem psi_and_ks_ranges:
  assumes "\<forall>b c s p. ks b c = Inr (s, p) \<longrightarrow> 0 \<le> s \<and> s \<le> 1 \<and> 0 \<le> p \<and> p \<le> 1"
  shows "0 \<le> calculate_psi self baseline current n \<and>
         0 \<le> fst (ks_test ks baseline current) \<and> fst (ks_test ks baseline current) \<le> 1 \<and>
         0 \<le> snd (ks_test ks baseline current) \<and> snd (ks_test ks baseline current) \<le> 1"
proof -
  from ks_test_cases[of ks baseline current] assms
  have "0 \<le> fst (ks_test ks baseline current) \<and> fst (ks_test ks baseline current) \<le> 1 \<and>
        0 \<le> snd (ks_test ks baseline current) \<and> snd (ks_test ks baseline current) \<le> 1"
    by auto
  then show ?thesis by (simp add: calculate_psi_nonneg)
qed

theorem psi_and_ks_ranges_witness:
  "0 \<le> calculate_psi (DriftDetector 0.25 0.05) [Num 0, NaN] [Num 1, Num 5] None \<and>
   ks_test sample_ks [Num 0, NaN] [Num 1, Num 5] = (1 / 2, 1 / 100) \<and>
   ks_test sample_ks [NaN] [Num 1, Num 5] = (0, 1) \<and>
   fst (ks_test sample_ks [Num 0, NaN] [Num 1, Num 5]) \<le> 1"
proof -
  have "\<forall>b c s p. sample_ks b c = Inr (s, p) \<longrightarrow> 0 \<le> s \<and> s \<le> 1 \<and> 0 \<le> p \<and> p \<le> 1"
    by (simp add: sample_ks_def)
  from psi_and_ks_ranges[OF this, of "DriftDetector 0.25 0.05" "[Num 0, NaN]" "[Num 1, Num 5]" None]
  show ?thesis by (simp add: ks_test_def sample_ks_def)
qed

section \<open>Properties of the drift classifier\<close>

lemma feature_report_fields:
  assumes "feature_report self ks f bv cv = Inr r"
  shows "feature_name r = f"
    and "drift_score r = calculate_psi self bv cv None"
    and "threshold r = psi_threshold self"
    and "status r = determine_status self (drift_score r)"
    and "severity r = determine_severity (drift_score r)"
    and "(ks_statistic r, ks_p_value r) = ks_test ks bv cv"
  using assms
  by (auto simp: feature_report_def Let_def bind_exn_Inr_iff split: prod.splits)

lemma feature_report_ks_irrelevant:
  "map_sum id status (feature_report self ks f bv cv) =
   map_sum id status (feature_report self ks' f bv cv)"
  by (cases "summary_stats bv"; cases "summary_stats cv")
     (auto simp: feature_report_def Let_def bind_exn_def split: prod.splits sum.splits)

lemma detect_loop_ks_irrelevant:
  "map_sum id (map status) (detect_loop self ks b c names) =
   map_sum id (map status) (detect_loop self ks' b c names)"
proof (induction names)
  case Nil
  show ?case by simp
next
  case (Cons f names)
  show ?case
  proof (cases "\<not> has_column b f \<or> \<not> has_column c f")
    case True
    with Cons show ?thesis by simp
  next
    case False
    have fr: "map_sum id status (feature_report self ks f (column_values b f) (column_values c f)) =
          map_sum id status (feature_report self ks' f (column_values b f) (column_values c f))"
      by (rule feature_report_ks_irrelevant)
    from False fr Cons show ?thesis
      by (cases "feature_report self ks f (column_values b f) (column_values c f)";
          cases "feature_report self ks' f (column_values b f) (column_values c f)";
          cases "detect_loop self ks b c names"; cases "detect_loop self ks' b c names")
         simp_all
  qed
qed

lemma detect_loop_member:
  assumes "detect_loop self ks b c names = Inr rs" "r \<in> set rs"
  shows "\<exists>f \<in> set names. has_column b f \<and> has_column c f \<and>
           feature_report self ks f (column_values b f) (column_values c f) = Inr r"
  using assms
proof (induction names arbitrary: rs)
  case Nil
  then show ?case by simp
next
  case (Cons f names)
  show ?case
  proof (cases "\<not> has_column b f \<or> \<not> has_column c f")
    case True
    with Cons show ?thesis by auto
  next
    case False
    with Cons.prems obtain r0 rs0 where
      r0: "feature_report self ks f (column_values b f) (column_values c f) = Inr r0"
      and rs0: "detect_loop self ks b c names = Inr rs0" and rs: "rs = r0 # rs0"
      by (auto simp: bind_exn_Inr_iff)
    show ?thesis
    proof (cases "r = r0")
      case True
      with r0 False show ?thesis by auto
    next
      case neq: False
      with rs Cons.prems have "r \<in> set rs0" by simp
      from Cons.IH[OF rs0 this] show ?thesis by auto
    qed
  qed
qed

lemma detect_member:
  assumes "detect_feature_drift self ks b c names = Inr rs" "r \<in> set rs"
  shows "has_column b (feature_name r) \<and> has_column c (feature_name r) \<and>
         feature_report self ks (feature_name r) (column_values b (feature_name r))
           (column_values c (feature_name r)) = Inr r"
proof -
  from detect_loop_member[OF assms[unfolded detect_feature_drift_def]]
  obtain f where f: "has_column b f" "has_column c f"
     "feature_report self ks f (column_values b f) (column_values c f) = Inr r" by blast
  from feature_report_fields(1)[OF f(3)] f show ?thesis by simp
qed

lemma determine_severity_bands:
  "(determine_severity p = SevNone \<longleftrightarrow> p < 0.1) \<and>
   (determine_severity p = Low \<longleftrightarrow> 0.1 \<le> p \<and> p < 0.25) \<and>
   (determine_severity p = Medium \<longleftrightarrow> 0.25 \<le> p \<and> p < 0.5) \<and>
   (determine_severity p = High \<longleftrightarrow> 0.5 \<le> p)"
  by (simp add: determine_severity_def)

lemma determine_severity_mono:
  "p \<le> q \<Longrightarrow> sev_rank (determine_severity p) \<le> sev_rank (determine_severity q)"
  by (simp add: determine_severity_def)

lemma nanstd_nonneg: "nanstd vs = Num s \<Longrightarrow> 0 \<le> s"
  by (auto simp: nanstd_def Let_def split: if_splits
        intro!: divide_nonneg_nonneg sum_list_nonneg)

lemma change_pct_std_returns: "\<exists>q. change_pct (nanstd a) (nanstd b) = Inr q"
proof (cases "nanstd b")
  case NaN
  then show ?thesis by (simp add: change_pct_def)
next
  case (Num s)
  then have "0 \<le> s" by (rule nanstd_nonneg)
  then have "s + epsilon \<noteq> 0" using epsilon_pos by linarith
  with Num show ?thesis by (cases "nanstd a") (simp_all add: change_pct_def)
qed

lemma change_pct_mean_returns:
  assumes "m \<noteq> Num (- epsilon)"
  shows "\<exists>q. change_pct x m = Inr q"
proof (cases m)
  case NaN
  then show ?thesis by (simp add: change_pct_def)
next
  case (Num r)
  with assms have "r + epsilon \<noteq> 0" by auto
  with Num show ?thesis by (cases x) (simp_all add: change_pct_def)
qed

lemma summary_stats_returns:
  "vs \<noteq> [] \<Longrightarrow> \<exists>s. summary_stats vs = Inr s \<and> st_mean s = nanmean vs \<and> st_std s = nanstd vs"
  by (simp add: summary_stats_def nanmin_def nanmax_def Let_def)

lemma feature_report_returns:
  assumes "bv \<noteq> []" "cv \<noteq> []" "nanmean bv \<noteq> Num (- epsilon)"
  shows "\<exists>r. feature_report self ks f bv cv = Inr r"
proof -
  from summary_stats_returns[OF assms(1)] obtain bs where
    bs: "summary_stats bv = Inr bs" "st_mean bs = nanmean bv" "st_std bs = nanstd bv" by blast
  from summary_stats_returns[OF assms(2)] obtain cs where
    cs: "summary_stats cv = Inr cs" "st_mean cs = nanmean cv" "st_std cs = nanstd cv" by blast
  from change_pct_mean_returns[OF assms(3)] obtain mp where
    mp: "change_pct (nanmean cv) (nanmean bv) = Inr mp" by blast
  from change_pct_std_returns obtain sp where
    sp: "change_pct (nanstd cv) (nanstd bv) = Inr sp" by blast
  from bs cs mp sp show ?thesis
    by (simp add: feature_report_def Let_def split: prod.splits)
qed

lemma detect_loop_returns:
  assumes "\<forall>f \<in> set names. has_column b f \<and> has_column c f \<longrightarrow>
             column_values b f \<noteq> [] \<and> column_values c f \<noteq> [] \<and>
             nanmean (column_values b f) \<noteq> Num (- epsilon)"
  shows "\<exists>rs. detect_loop self ks b c names = Inr rs \<and>
              map feature_name rs = filter (\<lambda>f. has_column b f \<and> has_column c f) names"
  using assms
proof (induction names)
  case Nil
  then show ?case by simp
next
  case (Cons f names)
  then obtain rs where rs: "detect_loop self ks b c names = Inr rs"
    "map feature_name rs = filter (\<lambda>f. has_column b f \<and> has_column c f) names" by auto
  show ?case
  proof (cases "has_column b f \<and> has_column c f")
    case False
    with rs show ?thesis by auto
  next
    case True
    with Cons.prems have "column_values b f \<noteq> []" "column_values c f \<noteq> []"
      "nanmean (column_values b f) \<noteq> Num (- epsilon)" by auto
    from feature_report_returns[OF this] obtain r where
      r: "feature_report self ks f (column_values b f) (column_values c f) = Inr r" by blast
    from feature_report_fields(1)[OF r] have "feature_name r = f" .
    with r rs True show ?thesis by simp
  qed
qed

lemma sample_frame_detect:
  "\<exists>r. detect_feature_drift self ks sample_frame sample_frame None = Inr [r] \<and>
       feature_name r = ''amount'' \<and> drift_score r = 0 \<and>
       status r = determine_status self 0 \<and> severity r = SevNone"
proof -
  have "nanmean [Num 1, Num 2] \<noteq> Num (- epsilon)"
    by (simp add: nanmean_def epsilon_def)
  then have "\<exists>r. feature_report self ks ''amount'' [Num 1, Num 2] [Num 1, Num 2] = Inr r"
    by (intro feature_report_returns) simp_all
  then obtain r where r: "feature_report self ks ''amount'' [Num 1, Num 2] [Num 1, Num 2] = Inr r"
    by blast
  note f = feature_report_fields[OF r]
  have d: "detect_feature_drift self ks sample_frame sample_frame None = Inr [r]"
    using r by (simp add: detect_feature_drift_def feature_list_def sample_frame_def
        has_column_def column_values_def)
  from f have "drift_score r = 0" by (simp add: calculate_psi_self)
  with f d show ?thesis by (auto simp: determine_severity_def)
qed

lemma flat_frame_detect:
  "\<exists>r. detect_feature_drift self ks flat_frame flat_frame None = Inr [r] \<and>
       feature_name r = ''amount'' \<and> drift_score r = 0 \<and>
       (ks_statistic r, ks_p_value r) = ks_test ks [Num 1] [Num 1]"
proof -
  have "nanmean [Num 1] \<noteq> Num (- epsilon)"
    by (simp add: nanmean_def epsilon_def)
  then have "\<exists>r. feature_report self ks ''amount'' [Num 1] [Num 1] = Inr r"
    by (intro feature_report_returns) simp_all
  then obtain r where r: "feature_report self ks ''amount'' [Num 1] [Num 1] = Inr r"
    by blast
  note f = feature_report_fields[OF r]
  have d: "detect_feature_drift self ks flat_frame flat_frame None = Inr [r]"
    using r by (simp add: detect_feature_drift_def feature_list_def flat_frame_def
        has_column_def column_values_def)
  from f have "drift_score r = 0" by (simp add: calculate_psi_self)
  with f d show ?thesis by auto
qed

lemma upt_11: "[0..<11] = [0, 1, 2, 3, 4, 5, 6, 7, 8, 9, 10::nat]"
  by (simp add: upt_rec)

lemma DataFrame_half: "DataFrame half_rows =
   \<lparr>n_rows = 10, columns = [(''amount'', map Num [0, 0, 0, 0, 0, 1, 1, 1, 1, 1])]\<rparr>"
  by (simp add: DataFrame_def half_rows_def)

lemma DataFrame_skewed: "DataFrame skewed_rows =
   \<lparr>n_rows = 10, columns = [(''amount'', map Num [0, 0, 0, 0, 0, 0, 0, 0, 0, 1])]\<rparr>"
  by (simp add: DataFrame_def skewed_rows_def)

lemma skew_psi_value:
  "calculate_psi (DriftDetector t k) (map Num [0, 0, 0, 0, 0, 1, 1, 1, 1, 1])
     (map Num [0, 0, 0, 0, 0, 0, 0, 0, 0, 1]) None
   = 2 / 5 * ln ((9 / 10 + epsilon) / (1 / 2 + epsilon))
     - 2 / 5 * ln ((1 / 10 + epsilon) / (1 / 2 + epsilon))"
  by (simp add: calculate_psi_def DriftDetector_def psi_try_def linspace_def upt_11
     set_first_def set_last_def histogram_def psi_sum_def)

lemma exp_5_4_le: "exp (5 / 4 :: real) \<le> 8"
proof (rule ccontr)
  assume "\<not> exp (5 / 4 :: real) \<le> 8"
  then have "8 < exp (5 / 4 :: real)" by simp
  then have "(8::real) ^ 4 < exp (5 / 4) ^ 4"
    by (intro power_strict_mono) simp_all
  moreover have "exp (5 / 4 :: real) ^ 4 = exp 5"
    using exp_of_nat_mult[of 4 "5 / 4 :: real"] by simp
  moreover have "exp (5::real) = exp 1 ^ 5"
    using exp_of_nat_mult[of 5 "1 :: real"] by simp
  moreover have "exp (1::real) ^ 5 \<le> 3 ^ 5"
    by (intro power_mono exp_le) simp
  ultimately show False by simp
qed

lemma exp_5_2_gt: "(9::real) < exp (5 / 2)"
proof -
  have "(1 + (5 / 2) / of_nat 16) ^ 16 \<le> exp (5 / 2 :: real)"
    by (rule exp_ge_one_plus_x_over_n_power_n) simp_all
  moreover have "(9::real) < (1 + (5 / 2) / of_nat 16) ^ 16"
    by (simp add: field_simps)
  ultimately show ?thesis by linarith
qed

lemma skew_psi_bounds:
  fixes v :: real
  assumes "v = 2 / 5 * ln ((9 / 10 + epsilon) / (1 / 2 + epsilon))
             - 2 / 5 * ln ((1 / 10 + epsilon) / (1 / 2 + epsilon))"
  shows "1 / 2 \<le> v" and "v < 1"
proof -
  let ?q = "(9 / 10 + epsilon) / (1 / 10 + epsilon)"
  have pos: "0 < epsilon" by (rule epsilon_pos)
  have l1: "ln ((9 / 10 + epsilon) / (1 / 2 + epsilon)) = ln (9 / 10 + epsilon) - ln (1 / 2 + epsilon)"
    using pos by (intro ln_divide_pos) simp_all
  have l2: "ln ((1 / 10 + epsilon) / (1 / 2 + epsilon)) = ln (1 / 10 + epsilon) - ln (1 / 2 + epsilon)"
    using pos by (intro ln_divide_pos) simp_all
  have l3: "ln ?q = ln (9 / 10 + epsilon) - ln (1 / 10 + epsilon)"
    using pos by (intro ln_divide_pos) simp_all
  have v: "v = 2 / 5 * ln ?q"
    unfolding assms l1 l2 l3 by (simp add: algebra_simps)
  have q: "8 \<le> ?q" "?q < 9" "0 < ?q"
    by (simp_all add: epsilon_def field_simps)
  have "exp (5 / 4) \<le> ?q" using exp_5_4_le q(1) by linarith
  then have "5 / 4 \<le> ln ?q" using ln_ge_iff[OF q(3), of "5 / 4"] by blast
  then show "1 / 2 \<le> v" unfolding v by simp
  have "?q < exp (5 / 2)" using exp_5_2_gt q(2) by linarith
  then have "ln ?q < 5 / 2" using q(3) by (metis exp_less_cancel_iff exp_ln)
  then show "v < 1" unfolding v by simp
qed

lemma skew_feature_report:
  "\<exists>r. feature_report (DriftDetector t k) ks f (map Num [0, 0, 0, 0, 0, 1, 1, 1, 1, 1])
          (map Num [0, 0, 0, 0, 0, 0, 0, 0, 0, 1]) = Inr r \<and>
       severity r = High \<and> 1 / 2 \<le> drift_score r \<and> drift_score r < 1 \<and>
       status r = determine_status (DriftDetector t k) (drift_score r)"
proof -
  let ?b = "map Num [0, 0, 0, 0, 0, 1, 1, 1, 1, 1]"
  let ?c = "map Num [0, 0, 0, 0, 0, 0, 0, 0, 0, 1]"
  have "nanmean ?b \<noteq> Num (- epsilon)"
    by (simp add: nanmean_def epsilon_def)
  then have "\<exists>r. feature_report (DriftDetector t k) ks f ?b ?c = Inr r"
    by (intro feature_report_returns) simp_all
  then obtain r where r: "feature_report (DriftDetector t k) ks f ?b ?c = Inr r"
    by blast
  note fl = feature_report_fields[OF r]
  from fl(2) have v: "drift_score r = 2 / 5 * ln ((9 / 10 + epsilon) / (1 / 2 + epsilon))
     - 2 / 5 * ln ((1 / 10 + epsilon) / (1 / 2 + epsilon))"
    by (simp only: skew_psi_value)
  note bounds = skew_psi_bounds[OF v]
  from bounds(1) fl(5) have hi: "severity r = High" by (simp add: determine_severity_def)
  from r hi bounds fl(4) show ?thesis by auto
qed

lemma skew_detect:
  "\<exists>r. detect_feature_drift (DriftDetector t k) ks (DataFrame half_rows) (DataFrame skewed_rows) None
          = Inr [r] \<and>
       severity r = High \<and> 1 / 2 \<le> drift_score r \<and> drift_score r < 1 \<and>
       status r = determine_status (DriftDetector t k) (drift_score r)"
proof -
  from skew_feature_report[of t k ks "''amount''"] obtain r where
    r: "feature_report (DriftDetector t k) ks ''amount'' (map Num [0, 0, 0, 0, 0, 1, 1, 1, 1, 1])
          (map Num [0, 0, 0, 0, 0, 0, 0, 0, 0, 1]) = Inr r"
      "severity r = High" "1 / 2 \<le> drift_score r" "drift_score r < 1"
      "status r = determine_status (DriftDetector t k) (drift_score r)" by blast
  have "detect_feature_drift (DriftDetector t k) ks (DataFrame half_rows)
             (DataFrame skewed_rows) None = Inr [r]"
    using r(1) by (simp add: detect_feature_drift_def feature_list_def DataFrame_half
        DataFrame_skewed has_column_def column_values_def)
  with r show ?thesis by blast
qed

lemma DataFrame_half2: "DataFrame half_rows2 =
   \<lparr>n_rows = 10, columns = [(''amount'', map Num [0, 0, 0, 0, 0, 1, 1, 1, 1, 1]),
                            (''hour'', map Num [0, 0, 0, 0, 0, 1, 1, 1, 1, 1])]\<rparr>"
  by (simp add: DataFrame_def half_rows2_def)

lemma DataFrame_skewed2: "DataFrame skewed_rows2 =
   \<lparr>n_rows = 10, columns = [(''amount'', map Num [0, 0, 0, 0, 0, 0, 0, 0, 0, 1]),
                            (''hour'', map Num [0, 0, 0, 0, 0, 0, 0, 0, 0, 1])]\<rparr>"
  by (simp add: DataFrame_def skewed_rows2_def)

lemma skew_detect2:
  "\<exists>r1 r2. detect_feature_drift (DriftDetector t k) ks (DataFrame half_rows2)
          (DataFrame skewed_rows2) None = Inr [r1, r2] \<and>
       severity r1 = High \<and> severity r2 = High"
proof -
  from skew_feature_report[of t k ks "''amount''"] obtain r1 where
    r1: "feature_report (DriftDetector t k) ks ''amount'' (map Num [0, 0, 0, 0, 0, 1, 1, 1, 1, 1])
          (map Num [0, 0, 0, 0, 0, 0, 0, 0, 0, 1]) = Inr r1" "severity r1 = High" by blast
  from skew_feature_report[of t k ks "''hour''"] obtain r2 where
    r2: "feature_report (DriftDetector t k) ks ''hour'' (map Num [0, 0, 0, 0, 0, 1, 1, 1, 1, 1])
          (map Num [0, 0, 0, 0, 0, 0, 0, 0, 0, 1]) = Inr r2" "severity r2 = High" by blast
  have "detect_feature_drift (DriftDetector t k) ks (DataFrame half_rows2)
          (DataFrame skewed_rows2) None = Inr [r1, r2]"
    using r1(1) r2(1)
    by (simp add: detect_feature_drift_def feature_list_def DataFrame_half2
        DataFrame_skewed2 has_column_def column_values_def)
  with r1(2) r2(2) show ?thesis by blast
qed

text \<open>
  Claim C3. For every feature result that \<open>detect_feature_drift\<close> returns, the drift
  score is the PSI of the two columns and the status is \<open>drifted\<close> exactly when that
  score is at least \<open>psi_threshold\<close>. The KS statistic and p-value are reported in the
  result, but they never influence the status: a p-value below \<open>ks_threshold\<close> with a
  PSI below \<open>psi_threshold\<close> still gives \<open>stable\<close>, and whatever the KS library returns
  or raises (\<open>ks'\<close>), the call returns with the same list of statuses.
\<close>

theorem status_decided_by_psi:
  assumes "detect_feature_drift self ks baseline_df current_df names = Inr rs"
    and "r \<in> set rs"
  shows "drift_score r = calculate_psi self (column_values baseline_df (feature_name r))
                           (column_values current_df (feature_name r)) None \<and>
         (status r = Drifted \<longleftrightarrow> drift_score r \<ge> psi_threshold self) \<and>
         (status r = Stable \<longleftrightarrow> drift_score r < psi_threshold self) \<and>
         (ks_statistic r, ks_p_value r) =
            ks_test ks (column_values baseline_df (feature_name r))
              (column_values current_df (feature_name r)) \<and>
         (ks_p_value r < ks_threshold self \<and> drift_score r < psi_threshold self
            \<longrightarrow> status r = Stable) \<and>
         (\<exists>rs'. detect_feature_drift self ks' baseline_df current_df names = Inr rs' \<and>
                 map status rs' = map status rs)"
proof -
  let ?f = "feature_name r"
  from detect_member[OF assms] have
    fr: "feature_report self ks ?f (column_values baseline_df ?f) (column_values current_df ?f) = Inr r"
    by simp
  note fields = feature_report_fields[OF fr]
  have st: "status r = (if drift_score r \<ge> psi_threshold self then Drifted else Stable)"
    using fields(4) by (simp add: determine_status_def)
  have "map_sum id (map status) (detect_feature_drift self ks' baseline_df current_df names) =
        map_sum id (map status) (detect_feature_drift self ks baseline_df current_df names)"
    unfolding detect_feature_drift_def by (rule detect_loop_ks_irrelevant)
  with assms(1) have ex:
    "\<exists>rs'. detect_feature_drift self ks' baseline_df current_df names = Inr rs' \<and>
           map status rs' = map status rs"
    by (cases "detect_feature_drift self ks' baseline_df current_df names") simp_all
  from fields(2) fields(6) st ex show ?thesis by simp
qed

theorem status_decided_by_psi_witness:
  "\<exists>r. detect_feature_drift (DriftDetector 0.25 0.05) sample_ks flat_frame flat_frame None = Inr [r] \<and>
       ks_p_value r < ks_threshold (DriftDetector 0.25 0.05) \<and>
       drift_score r < psi_threshold (DriftDetector 0.25 0.05) \<and>
       status r = Stable"
proof -
  let ?d = "DriftDetector 0.25 0.05"
  from flat_frame_detect[of ?d sample_ks] obtain r where
    r: "detect_feature_drift ?d sample_ks flat_frame flat_frame None = Inr [r]"
      "drift_score r = 0" "(ks_statistic r, ks_p_value r) = ks_test sample_ks [Num 1] [Num 1]"
    by blast
  have p: "ks_p_value r = 1 / 100"
    using r(3) by (simp add: ks_test_def sample_ks_def)
  have "r \<in> set [r]" by simp
  from status_decided_by_psi[OF r(1) this] r(2) p
  have "status r = Stable" by (simp add: DriftDetector_def)
  with r p show ?thesis by (auto simp: DriftDetector_def)
qed

text \<open>
  Claim C4. For every feature result that \<open>detect_feature_drift\<close> returns, the severity
  is given by the fixed bands of the drift score: \<open>none\<close> below 0.10, \<open>low\<close> from 0.10
  to below 0.25, \<open>medium\<close> from 0.25 to below 0.5, \<open>high\<close> from 0.5 on. Hence the
  severity is monotone in the drift score, also across two runs of the detector.
\<close>

theorem severity_bands:
  assumes "detect_feature_drift self ks baseline_df current_df names = Inr rs" and "r \<in> set rs"
    and "detect_feature_drift self' ks' baseline_df' current_df' names' = Inr rs'" and "r' \<in> set rs'"
  shows "(severity r = SevNone \<longleftrightarrow> drift_score r < 0.1) \<and>
         (severity r = Low \<longleftrightarrow> 0.1 \<le> drift_score r \<and> drift_score r < 0.25) \<and>
         (severity r = Medium \<longleftrightarrow> 0.25 \<le> drift_score r \<and> drift_score r < 0.5) \<and>
         (severity r = High \<longleftrightarrow> 0.5 \<le> drift_score r) \<and>
         (drift_score r \<le> drift_score r' \<longrightarrow> sev_rank (severity r) \<le> sev_rank (severity r'))"
proof -
  from detect_member[OF assms(1,2)] have
    "severity r = determine_severity (drift_score r)"
    by (auto dest: feature_report_fields(5))
  moreover from detect_member[OF assms(3,4)] have
    "severity r' = determine_severity (drift_score r')"
    by (auto dest: feature_report_fields(5))
  ultimately show ?thesis
    using determine_severity_bands[of "drift_score r"]
      determine_severity_mono[of "drift_score r" "drift_score r'"]
    by simp
qed

theorem severity_bands_witness:
  "\<exists>r r'. detect_feature_drift (DriftDetector 0.25 0.05) sample_ks flat_frame flat_frame None = Inr [r] \<and>
       detect_feature_drift (DriftDetector 0.25 0.05) sample_ks (DataFrame half_rows)
         (DataFrame skewed_rows) None = Inr [r'] \<and>
       drift_score r = 0 \<and> severity r = SevNone \<and>
       1 / 2 \<le> drift_score r' \<and> severity r' = High \<and>
       sev_rank (severity r) \<le> sev_rank (severity r')"
proof -
  let ?d = "DriftDetector 0.25 0.05"
  from flat_frame_detect[of ?d sample_ks] obtain r where
    r: "detect_feature_drift ?d sample_ks flat_frame flat_frame None = Inr [r]"
      "drift_score r = 0" by blast
  from skew_detect[of "0.25" "0.05" sample_ks] obtain r' where
    r': "detect_feature_drift ?d sample_ks (DataFrame half_rows) (DataFrame skewed_rows) None
           = Inr [r']"
      "1 / 2 \<le> drift_score r'" by blast
  have m: "r \<in> set [r]" "r' \<in> set [r']" by simp_all
  from severity_bands[OF r(1) m(1) r'(1) m(2)] r(2) r'(2)
  have a: "severity r = SevNone \<and> sev_rank (severity r) \<le> sev_rank (severity r')" by simp
  from severity_bands[OF r'(1) m(2) r(1) m(1)] r'(2)
  have b: "severity r' = High" by simp
  from a b r r' show ?thesis by blast
qed

lemma detect_self_results:
  assumes "detect_feature_drift self ks df df names = Inr rs" "r \<in> set rs"
  shows "drift_score r = 0 \<and> severity r = SevNone \<and> status r = determine_status self 0"
proof -
  from detect_member[OF assms] have
    fr: "feature_report self ks (feature_name r) (column_values df (feature_name r))
           (column_values df (feature_name r)) = Inr r" by simp
  note f = feature_report_fields[OF fr]
  from f(2) have z: "drift_score r = 0" by (simp add: calculate_psi_self)
  with f(4,5) show ?thesis by (simp add: determine_severity_def)
qed

text \<open>
  Claim C6 (as amended). \<open>calculate_psi(x, x)\<close> is 0 for every sample and every bin
  count. Hence, when \<open>detect_feature_drift\<close> is run with the current frame equal to the
  baseline frame and returns, every result has drift score 0 and severity \<open>none\<close>, and
  status \<open>stable\<close> provided \<open>psi_threshold\<close> is positive. The call does return, with one
  result per requested feature of the frame, when no requested column is empty and no
  column mean is exactly \<open>-1e-10\<close>.
\<close>

theorem identical_frames_no_drift:
  "calculate_psi self x x n = 0 \<and>
   (detect_feature_drift self ks df df names = Inr rs \<longrightarrow>
      (\<forall>r \<in> set rs. drift_score r = 0 \<and> severity r = SevNone \<and>
                     (0 < psi_threshold self \<longrightarrow> status r = Stable))) \<and>
   ((\<forall>f \<in> set (feature_list df names). has_column df f \<longrightarrow>
        column_values df f \<noteq> [] \<and> nanmean (column_values df f) \<noteq> Num (- epsilon)) \<longrightarrow>
      (\<exists>rs'. detect_feature_drift self ks df df names = Inr rs' \<and>
             map feature_name rs' = filter (has_column df) (feature_list df names)))"
proof (intro conjI impI ballI)
  show "calculate_psi self x x n = 0" by (rule calculate_psi_self)
next
  fix r assume a: "detect_feature_drift self ks df df names = Inr rs" "r \<in> set rs"
  from detect_self_results[OF a]
  show "drift_score r = 0" "severity r = SevNone" by simp_all
  assume "0 < psi_threshold self"
  with detect_self_results[OF a] show "status r = Stable"
    by (simp add: determine_status_def)
next
  assume a: "\<forall>f \<in> set (feature_list df names). has_column df f \<longrightarrow>
        column_values df f \<noteq> [] \<and> nanmean (column_values df f) \<noteq> Num (- epsilon)"
  then have "\<forall>f \<in> set (feature_list df names). has_column df f \<and> has_column df f \<longrightarrow>
        column_values df f \<noteq> [] \<and> column_values df f \<noteq> [] \<and>
        nanmean (column_values df f) \<noteq> Num (- epsilon)" by simp
  from detect_loop_returns[OF this, of self ks]
  show "\<exists>rs'. detect_feature_drift self ks df df names = Inr rs' \<and>
             map feature_name rs' = filter (has_column df) (feature_list df names)"
    by (simp add: detect_feature_drift_def)
qed

theorem identical_frames_no_drift_witness:
  "calculate_psi (DriftDetector 0.25 0.05) [Num 1, Num 2, Num 4] [Num 1, Num 2, Num 4] (Some 2) = 0 \<and>
   (\<exists>rs. detect_feature_drift (DriftDetector 0.25 0.05) sample_ks sample_frame sample_frame None
            = Inr rs \<and>
         map feature_name rs = [''amount''] \<and> map severity rs = [SevNone] \<and>
         map status rs = [Stable])"
proof -
  let ?d = "DriftDetector 0.25 0.05"
  let ?x = "[Num 1, Num 2, Num 4]"
  have cols: "\<forall>f \<in> set (feature_list sample_frame None). has_column sample_frame f \<longrightarrow>
          column_values sample_frame f \<noteq> [] \<and>
          nanmean (column_values sample_frame f) \<noteq> Num (- epsilon)"
    by (simp add: feature_list_def sample_frame_def column_values_def nanmean_def epsilon_def)
  from identical_frames_no_drift[of ?d ?x "Some 2" sample_ks sample_frame None "[]"] cols
  obtain rs where rs: "detect_feature_drift ?d sample_ks sample_frame sample_frame None = Inr rs"
    "map feature_name rs = filter (has_column sample_frame) (feature_list sample_frame None)"
    by blast
  from rs(2) have names: "map feature_name rs = [''amount'']"
    by (simp add: feature_list_def sample_frame_def has_column_def)
  then obtain r where r: "rs = [r]" by (cases rs) auto
  have pos: "0 < psi_threshold ?d" by (simp add: DriftDetector_def)
  from identical_frames_no_drift[of ?d ?x "Some 2" sample_ks sample_frame None rs] rs(1) pos r
  have "calculate_psi ?d ?x ?x (Some 2) = 0 \<and> severity r = SevNone \<and> status r = Stable"
    by simp
  with rs(1) names r show ?thesis by simp
qed

text \<open>
  With \<open>psi_threshold = 0\<close> the claim as stated fails: a frame compared with itself has
  PSI 0, and \<open>0 >= 0\<close> makes the status \<open>drifted\<close>.
\<close>

theorem identical_frames_counterexample:
  "map_sum id (map status)
     (detect_feature_drift (DriftDetector 0 0.05) sample_ks sample_frame sample_frame None)
   = Inr [Drifted]"
proof -
  from sample_frame_detect[of "DriftDetector 0 0.05" sample_ks] obtain r where
    "detect_feature_drift (DriftDetector 0 0.05) sample_ks sample_frame sample_frame None = Inr [r]"
    "status r = determine_status (DriftDetector 0 0.05) 0" by blast
  then show ?thesis by (simp add: determine_status_def DriftDetector_def)
qed

section \<open>Properties of the orchestrator\<close>

lemma try_log_error_returns: "try_log_error body = Inr ()"
  by (simp add: try_log_error_def split: sum.splits)

lemma store_drift_report_returns: "store_drift_report report = Inr ()"
  by (simp add: store_drift_report_def try_log_error_returns)

lemma get_drift_report_Inr:
  assumes "get_drift_report cfg w h = Inr report" and "drift_window cfg w h = (s, e)"
  shows "\<exists>b c. get_baseline_features w = Inr b \<and> get_current_features w s e = Inr c \<and>
     (if n_rows c = 0 then report = empty_report w cfg s e
      else (\<exists>ps m.
        detect_feature_drift (DriftDetector (PSI_THRESHOLD cfg) (KS_THRESHOLD cfg)) (ks_2samp w)
          b c None = Inr (feature_drift report) \<and>
        get_predictions w s e = Inr ps \<and>
        prediction_drift report =
          (if length ps > 0
           then Some (detect_prediction_drift (DriftDetector (PSI_THRESHOLD cfg) (KS_THRESHOLD cfg))
                        (ks_2samp w) (replicate (length ps) (Num 0.02)) ps)
           else None) \<and>
        calculate_performance_metrics w s e = Inr m \<and>
        performance_metrics report = Some m \<and>
        overall_status report =
          \<lparr>health = determine_overall_status (feature_drift report) (prediction_drift report),
           data_drift_detected = data_drift (feature_drift report),
           concept_drift_detected = concept_drift (prediction_drift report),
           performance_degraded = False\<rparr> \<and>
        total_predictions report = n_rows c \<and>
        alerts report = generate_alerts w (feature_drift report) (prediction_drift report)))"
proof -
  let ?d = "DriftDetector (PSI_THRESHOLD cfg) (KS_THRESHOLD cfg)"
  from assms obtain b c where b: "get_baseline_features w = Inr b"
    and c: "get_current_features w s e = Inr c"
    and rest: "(if n_rows c = 0 then Inr (empty_report w cfg s e)
         else bind_exn (detect_feature_drift ?d (ks_2samp w) b c None) (\<lambda>fd.
              bind_exn (get_predictions w s e) (\<lambda>ps.
                let pred_drift =
                     (if length ps > 0
                      then Some (detect_prediction_drift ?d (ks_2samp w)
                                   (replicate (length ps) (Num 0.02)) ps)
                      else None)
                in bind_exn (calculate_performance_metrics w s e) (\<lambda>m.
                    let alerts_list = generate_alerts w fd pred_drift;
                        rep =
                          \<lparr>report_timestamp = utcnow w (Suc (length alerts_list)),
                           time_window = (s, e),
                           total_predictions = n_rows c,
                           model_version = MODEL_VERSION cfg,
                           overall_status =
                             \<lparr>health = determine_overall_status fd pred_drift,
                              data_drift_detected = data_drift fd,
                              concept_drift_detected = concept_drift pred_drift,
                              performance_degraded = False\<rparr>,
                           feature_drift = fd,
                           prediction_drift = pred_drift,
                           performance_metrics = Some m,
                           alerts = alerts_list\<rparr>
                    in bind_exn (store_drift_report rep) (\<lambda>u. Inr rep))))) = Inr report"
    by (auto simp: get_drift_report_def Let_def bind_exn_Inr_iff)
  show ?thesis
  proof (cases "n_rows c = 0")
    case True
    with rest b c show ?thesis by auto
  next
    case False
    with rest obtain fd ps m where
      fd: "detect_feature_drift ?d (ks_2samp w) b c None = Inr fd"
      and ps: "get_predictions w s e = Inr ps"
      and m: "calculate_performance_metrics w s e = Inr m"
      and rep: "report =
          (let pred_drift =
                     (if length ps > 0
                      then Some (detect_prediction_drift ?d (ks_2samp w)
                                   (replicate (length ps) (Num 0.02)) ps)
                      else None);
               alerts_list = generate_alerts w fd pred_drift
           in \<lparr>report_timestamp = utcnow w (Suc (length alerts_list)),
                           time_window = (s, e),
                           total_predictions = n_rows c,
                           model_version = MODEL_VERSION cfg,
                           overall_status =
                             \<lparr>health = determine_overall_status fd pred_drift,
                              data_drift_detected = data_drift fd,
                              concept_drift_detected = concept_drift pred_drift,
                              performance_degraded = False\<rparr>,
                           feature_drift = fd,
                           prediction_drift = pred_drift,
                           performance_metrics = Some m,
                           alerts = alerts_list\<rparr>)"
      by (auto simp: Let_def bind_exn_Inr_iff store_drift_report_returns)
    have "feature_drift report = fd" unfolding rep by (simp add: Let_def)
    with fd ps m rep False b c show ?thesis
      by (simp add: Let_def)
  qed
qed

lemma get_drift_report_returns:
  assumes "drift_window cfg w h = (s, e)"
    and "get_baseline_features w = Inr b" and "get_current_features w s e = Inr c"
    and "n_rows c \<noteq> 0"
    and "detect_feature_drift (DriftDetector (PSI_THRESHOLD cfg) (KS_THRESHOLD cfg)) (ks_2samp w)
          b c None = Inr fd"
    and "get_predictions w s e = Inr ps"
    and "calculate_performance_metrics w s e = Inr m"
  shows "\<exists>report. get_drift_report cfg w h = Inr report \<and> feature_drift report = fd \<and>
           performance_metrics report = Some m \<and>
           prediction_drift report =
             (if length ps > 0
              then Some (detect_prediction_drift (DriftDetector (PSI_THRESHOLD cfg) (KS_THRESHOLD cfg))
                        (ks_2samp w) (replicate (length ps) (Num 0.02)) ps)
              else None) \<and>
           health (overall_status report) = determine_overall_status fd (prediction_drift report)"
  using assms
  by (simp add: get_drift_report_def Let_def store_drift_report_returns)

lemma determine_overall_status_not_unknown:
  "determine_overall_status fd pd \<noteq> ''unknown''"
  by (simp add: determine_overall_status_def)

lemma sample_env_baseline:
  "get_baseline_features (sample_env half_rows window_rows) = Inr (DataFrame half_rows)"
  by (simp add: get_baseline_features_def sample_env_def half_rows_def)

lemma sample_env_current:
  "get_current_features (sample_env first_rows skewed_rows) s e = Inr (DataFrame skewed_rows)"
  by (simp add: get_current_features_def sample_env_def skewed_rows_def)

lemma sample_env_current_empty:
  "get_current_features (sample_env first_rows []) s e = Inr empty_DataFrame"
  by (simp add: get_current_features_def sample_env_def)

lemma sample_env_metrics:
  "calculate_performance_metrics (sample_env first_rows window_rows) s e =
     Inr \<lparr>accuracy = Some 0, precision = Some 0, recall = Some 0, f1_score = Some 0,
          auc_roc = None\<rparr>"
  by (simp add: calculate_performance_metrics_def metrics_try_def sample_env_def
      sample_sklearn_def)

lemma ks_test_calm_self:
  "dropna x \<noteq> [] \<Longrightarrow> ks_test calm_ks x x = (0, 1)"
  by (simp add: ks_test_def calm_ks_def)

lemma sample_env_predictions:
  "get_predictions (sample_env first_rows skewed_rows) s e = Inr (replicate 10 (Num 0.02))"
  by (simp add: get_predictions_def sample_env_def skewed_rows_def eval_nat_numeral)

lemma sample_prediction_stable:
  "pd_status (detect_prediction_drift (DriftDetector t 0.05) calm_ks
      (replicate (length (replicate 10 (Num 0.02))) (Num 0.02)) (replicate 10 (Num 0.02))) = Stable"
proof -
  have "dropna (replicate 10 (Num 0.02)) \<noteq> []" by (simp add: eval_nat_numeral)
  from ks_test_calm_self[OF this] show ?thesis
    by (simp add: detect_prediction_drift_def DriftDetector_def Let_def)
qed

lemma sample_report:
  "\<exists>report r. get_drift_report (default_settings\<lparr>PSI_THRESHOLD := t\<rparr>)
                 (sample_env half_rows skewed_rows) None = Inr report \<and>
     feature_drift report = [r] \<and> severity r = High \<and>
     1 / 2 \<le> drift_score r \<and> drift_score r < 1 \<and>
     status r = (if drift_score r \<ge> t then Drifted else Stable) \<and>
     (\<exists>d. prediction_drift report = Some d \<and> pd_status d = Stable) \<and>
     performance_metrics report =
       Some \<lparr>accuracy = Some 0, precision = Some 0, recall = Some 0, f1_score = Some 0,
             auc_roc = None\<rparr> \<and>
     health (overall_status report) = (if drift_score r \<ge> t then ''warning'' else ''healthy'')"
proof -
  let ?cfg = "default_settings\<lparr>PSI_THRESHOLD := t\<rparr>"
  let ?w = "sample_env half_rows skewed_rows"
  let ?d = "DriftDetector (PSI_THRESHOLD ?cfg) (KS_THRESHOLD ?cfg)"
  have dd: "?d = DriftDetector t 0.05" by (simp add: default_settings_def)
  obtain s e where win: "drift_window ?cfg ?w None = (s, e)" by (cases "drift_window ?cfg ?w None")
  from skew_detect[of t "0.05" calm_ks] obtain r where
    r: "detect_feature_drift (DriftDetector t 0.05) calm_ks (DataFrame half_rows)
          (DataFrame skewed_rows) None = Inr [r]"
       "severity r = High" "1 / 2 \<le> drift_score r" "drift_score r < 1"
       "status r = determine_status (DriftDetector t 0.05) (drift_score r)" by blast
  have ks: "ks_2samp ?w = calm_ks" by (simp add: sample_env_def)
  have nr: "n_rows (DataFrame skewed_rows) \<noteq> 0" by (simp add: DataFrame_skewed)
  from get_drift_report_returns[OF win sample_env_baseline sample_env_current nr
      r(1)[folded dd ks] sample_env_predictions sample_env_metrics]
  obtain report where rep: "get_drift_report ?cfg ?w None = Inr report"
    "feature_drift report = [r]"
    "performance_metrics report =
       Some \<lparr>accuracy = Some 0, precision = Some 0, recall = Some 0, f1_score = Some 0,
             auc_roc = None\<rparr>"
    "prediction_drift report =
       Some (detect_prediction_drift ?d (ks_2samp ?w)
               (replicate (length (replicate 10 (Num 0.02))) (Num 0.02)) (replicate 10 (Num 0.02)))"
    "health (overall_status report) = determine_overall_status [r] (prediction_drift report)"
    by auto
  from rep(4) sample_prediction_stable[of t]
  have pd: "\<exists>d. prediction_drift report = Some d \<and> pd_status d = Stable"
    unfolding dd ks by simp
  have st: "status r = (if drift_score r \<ge> t then Drifted else Stable)"
    using r(5) by (simp add: determine_status_def DriftDetector_def)
  from pd st r(2) rep(5) have
    "health (overall_status report) = (if drift_score r \<ge> t then ''warning'' else ''healthy'')"
    by (auto simp: determine_overall_status_def high_severity_count_def data_drift_def
        concept_drift_def)
  with rep r pd st show ?thesis by blast
qed

lemma sample_report2:
  "\<exists>report r1 r2. get_drift_report default_settings
                 (sample_env half_rows2 skewed_rows2) None = Inr report \<and>
     feature_drift report = [r1, r2] \<and> severity r1 = High \<and> severity r2 = High \<and>
     health (overall_status report) \<noteq> ''unknown''"
proof -
  let ?cfg = "default_settings"
  let ?w = "sample_env half_rows2 skewed_rows2"
  let ?d = "DriftDetector (PSI_THRESHOLD ?cfg) (KS_THRESHOLD ?cfg)"
  obtain s e where win: "drift_window ?cfg ?w None = (s, e)" by (cases "drift_window ?cfg ?w None")
  from skew_detect2[of "PSI_THRESHOLD ?cfg" "KS_THRESHOLD ?cfg" calm_ks] obtain r1 r2 where
    r: "detect_feature_drift ?d calm_ks (DataFrame half_rows2)
          (DataFrame skewed_rows2) None = Inr [r1, r2]"
       "severity r1 = High" "severity r2 = High" by blast
  have ks: "ks_2samp ?w = calm_ks" by (simp add: sample_env_def)
  have nr: "n_rows (DataFrame skewed_rows2) \<noteq> 0" by (simp add: DataFrame_skewed2)
  have b: "get_baseline_features ?w = Inr (DataFrame half_rows2)"
    by (simp add: get_baseline_features_def sample_env_def half_rows2_def)
  have c: "get_current_features ?w s e = Inr (DataFrame skewed_rows2)"
    by (simp add: get_current_features_def sample_env_def skewed_rows2_def)
  have ps: "get_predictions ?w s e = Inr (replicate 10 (Num 0.02))"
    by (simp add: get_predictions_def sample_env_def skewed_rows2_def eval_nat_numeral)
  from get_drift_report_returns[OF win b c nr r(1)[folded ks] ps sample_env_metrics]
  obtain report where rep: "get_drift_report ?cfg ?w None = Inr report"
    "feature_drift report = [r1, r2]"
    "health (overall_status report) = determine_overall_status [r1, r2] (prediction_drift report)"
    by auto
  from rep(3) have "health (overall_status report) \<noteq> ''unknown''"
    by (simp add: determine_overall_status_not_unknown)
  with rep r show ?thesis by blast
qed

text \<open>
  Claim C1 (as amended). In every report of \<open>get_drift_report\<close> on a window that is not
  empty, the health is \<open>critical\<close> exactly when at least two feature results have
  severity \<open>high\<close>; otherwise it is \<open>warning\<close> exactly when some feature result has status
  \<open>drifted\<close> or the prediction drift result exists and has status \<open>drifted\<close>; otherwise
  it is \<open>healthy\<close>. Exactly two high-severity features give \<open>critical\<close>. Exactly one
  high-severity feature never gives \<open>critical\<close>, and it gives \<open>warning\<close> whenever the
  configured PSI threshold is at most 0.5 (the default is 0.25), because the feature is
  then \<open>drifted\<close>.
\<close>

theorem overall_health_rule:
  assumes "get_drift_report cfg w hours = Inr report"
    and "health (overall_status report) \<noteq> ''unknown''"
  shows "(health (overall_status report) = ''critical'' \<longleftrightarrow>
            2 \<le> length (filter (\<lambda>r. severity r = High) (feature_drift report))) \<and>
         (health (overall_status report) = ''warning'' \<longleftrightarrow>
            length (filter (\<lambda>r. severity r = High) (feature_drift report)) < 2 \<and>
            ((\<exists>r \<in> set (feature_drift report). status r = Drifted) \<or>
             (\<exists>d. prediction_drift report = Some d \<and> pd_status d = Drifted))) \<and>
         (health (overall_status report) = ''healthy'' \<longleftrightarrow>
            length (filter (\<lambda>r. severity r = High) (feature_drift report)) < 2 \<and>
            \<not> ((\<exists>r \<in> set (feature_drift report). status r = Drifted) \<or>
               (\<exists>d. prediction_drift report = Some d \<and> pd_status d = Drifted))) \<and>
         (length (filter (\<lambda>r. severity r = High) (feature_drift report)) = 2 \<longrightarrow>
            health (overall_status report) = ''critical'') \<and>
         (length (filter (\<lambda>r. severity r = High) (feature_drift report)) = 1 \<longrightarrow>
            health (overall_status report) \<noteq> ''critical'' \<and>
            (PSI_THRESHOLD cfg \<le> 0.5 \<longrightarrow> health (overall_status report) = ''warning''))"
proof -
  let ?fd = "feature_drift report" and ?pd = "prediction_drift report"
  let ?d = "DriftDetector (PSI_THRESHOLD cfg) (KS_THRESHOLD cfg)"
  obtain s e where win: "drift_window cfg w hours = (s, e)"
    by (cases "drift_window cfg w hours")
  from get_drift_report_Inr[OF assms(1) win] obtain b c where
    bc: "if n_rows c = 0 then report = empty_report w cfg s e
      else (\<exists>ps m.
        detect_feature_drift ?d (ks_2samp w) b c None = Inr ?fd \<and>
        get_predictions w s e = Inr ps \<and>
        prediction_drift report =
          (if length ps > 0
           then Some (detect_prediction_drift ?d (ks_2samp w) (replicate (length ps) (Num 0.02)) ps)
           else None) \<and>
        calculate_performance_metrics w s e = Inr m \<and>
        performance_metrics report = Some m \<and>
        overall_status report =
          \<lparr>health = determine_overall_status ?fd ?pd,
           data_drift_detected = data_drift ?fd,
           concept_drift_detected = concept_drift ?pd,
           performance_degraded = False\<rparr> \<and>
        total_predictions report = n_rows c \<and>
        alerts report = generate_alerts w ?fd ?pd)"
    by blast
  have ne: "n_rows c \<noteq> 0"
  proof
    assume "n_rows c = 0"
    with bc have "report = empty_report w cfg s e" by simp
    with assms(2) show False by (simp add: empty_report_def)
  qed
  with bc have det: "detect_feature_drift ?d (ks_2samp w) b c None = Inr ?fd"
    and h: "health (overall_status report) = determine_overall_status ?fd ?pd"
    by auto
  have cd: "concept_drift ?pd \<longleftrightarrow> (\<exists>d. ?pd = Some d \<and> pd_status d = Drifted)"
    by (cases ?pd) (simp_all add: concept_drift_def)
  have rule: "(health (overall_status report) = ''critical'' \<longleftrightarrow>
            2 \<le> length (filter (\<lambda>r. severity r = High) ?fd)) \<and>
         (health (overall_status report) = ''warning'' \<longleftrightarrow>
            length (filter (\<lambda>r. severity r = High) ?fd) < 2 \<and>
            ((\<exists>r \<in> set ?fd. status r = Drifted) \<or>
             (\<exists>d. ?pd = Some d \<and> pd_status d = Drifted))) \<and>
         (health (overall_status report) = ''healthy'' \<longleftrightarrow>
            length (filter (\<lambda>r. severity r = High) ?fd) < 2 \<and>
            \<not> ((\<exists>r \<in> set ?fd. status r = Drifted) \<or>
               (\<exists>d. ?pd = Some d \<and> pd_status d = Drifted)))"
    unfolding h determine_overall_status_def high_severity_count_def data_drift_def cd
    by auto
  have one: "health (overall_status report) = ''warning''"
    if n1: "length (filter (\<lambda>r. severity r = High) ?fd) = 1" and thr: "PSI_THRESHOLD cfg \<le> 0.5"
  proof -
    from n1 have "filter (\<lambda>r. severity r = High) ?fd \<noteq> []" by auto
    then obtain r where r: "r \<in> set ?fd" "severity r = High"
      by (metis (mono_tags, lifting) filter_False)
    from detect_member[OF det r(1)] have
      fr: "feature_report ?d (ks_2samp w) (feature_name r)
             (column_values b (feature_name r)) (column_values c (feature_name r)) = Inr r"
      by simp
    from feature_report_fields(5)[OF fr] r(2) have "0.5 \<le> drift_score r"
      using determine_severity_bands[of "drift_score r"] by simp
    with thr feature_report_fields(4)[OF fr] have "status r = Drifted"
      by (simp add: determine_status_def DriftDetector_def)
    with r(1) have "\<exists>r \<in> set ?fd. status r = Drifted" by blast
    with rule n1 show ?thesis by simp
  qed
  from rule one show ?thesis by auto
qed

theorem overall_health_rule_witness:
  "(\<exists>report. get_drift_report (default_settings\<lparr>PSI_THRESHOLD := 1 / 4\<rparr>)
                (sample_env half_rows skewed_rows) None = Inr report \<and>
     health (overall_status report) \<noteq> ''unknown'' \<and>
     length (filter (\<lambda>r. severity r = High) (feature_drift report)) = 1 \<and>
     health (overall_status report) = ''warning'') \<and>
   (\<exists>report. get_drift_report default_settings (sample_env half_rows2 skewed_rows2) None
                = Inr report \<and>
     health (overall_status report) \<noteq> ''unknown'' \<and>
     length (filter (\<lambda>r. severity r = High) (feature_drift report)) = 2 \<and>
     health (overall_status report) = ''critical'')"
proof -
  let ?cfg = "default_settings\<lparr>PSI_THRESHOLD := 1 / 4\<rparr>"
  from sample_report[of "1 / 4"] obtain report r where
    rep: "get_drift_report ?cfg (sample_env half_rows skewed_rows) None = Inr report"
      "feature_drift report = [r]" "severity r = High" "1 / 2 \<le> drift_score r"
      "health (overall_status report) = (if drift_score r \<ge> 1 / 4 then ''warning'' else ''healthy'')"
    by blast
  from rep(4,5) have nu: "health (overall_status report) \<noteq> ''unknown''" by simp
  have n1: "length (filter (\<lambda>r. severity r = High) (feature_drift report)) = 1"
    using rep(2,3) by simp
  have thr: "PSI_THRESHOLD ?cfg \<le> 0.5" by simp
  from overall_health_rule[OF rep(1) nu] n1 thr
  have "health (overall_status report) = ''warning''" by simp
  with rep(1) nu n1 have one: "\<exists>report. get_drift_report ?cfg
        (sample_env half_rows skewed_rows) None = Inr report \<and>
     health (overall_status report) \<noteq> ''unknown'' \<and>
     length (filter (\<lambda>r. severity r = High) (feature_drift report)) = 1 \<and>
     health (overall_status report) = ''warning''" by blast
  from sample_report2 obtain report2 r1 r2 where
    rep2: "get_drift_report default_settings (sample_env half_rows2 skewed_rows2) None = Inr report2"
      "feature_drift report2 = [r1, r2]" "severity r1 = High" "severity r2 = High"
      "health (overall_status report2) \<noteq> ''unknown''"
    by blast
  have n2: "length (filter (\<lambda>r. severity r = High) (feature_drift report2)) = 2"
    using rep2(2,3,4) by simp
  from overall_health_rule[OF rep2(1) rep2(5)] n2
  have "health (overall_status report2) = ''critical''" by simp
  with rep2(1,5) n2 have two: "\<exists>report. get_drift_report default_settings
        (sample_env half_rows2 skewed_rows2) None = Inr report \<and>
     health (overall_status report) \<noteq> ''unknown'' \<and>
     length (filter (\<lambda>r. severity r = High) (feature_drift report)) = 2 \<and>
     health (overall_status report) = ''critical''" by blast
  from one two show ?thesis by blast
qed

text \<open>
  With \<open>PSI_THRESHOLD = 1\<close> the claim as stated fails: the one feature of the sample
  window has a PSI between 0.5 and 1, so its severity is \<open>high\<close> and its status
  \<open>stable\<close>, and the health is \<open>healthy\<close>, not \<open>warning\<close>.
\<close>

theorem one_high_feature_counterexample:
  "map_sum id (map severity \<circ> feature_drift)
     (get_drift_report (default_settings\<lparr>PSI_THRESHOLD := 1\<rparr>)
        (sample_env half_rows skewed_rows) None) = Inr [High] \<and>
   map_sum id (map status \<circ> feature_drift)
     (get_drift_report (default_settings\<lparr>PSI_THRESHOLD := 1\<rparr>)
        (sample_env half_rows skewed_rows) None) = Inr [Stable] \<and>
   map_sum id (health \<circ> overall_status)
     (get_drift_report (default_settings\<lparr>PSI_THRESHOLD := 1\<rparr>)
        (sample_env half_rows skewed_rows) None) = Inr ''healthy''"
proof -
  from sample_report[of 1] obtain report r where
    rep: "get_drift_report (default_settings\<lparr>PSI_THRESHOLD := 1\<rparr>)
            (sample_env half_rows skewed_rows) None = Inr report"
      "feature_drift report = [r]" "severity r = High" "drift_score r < 1"
      "status r = (if drift_score r \<ge> 1 then Drifted else Stable)"
      "health (overall_status report) = (if drift_score r \<ge> 1 then ''warning'' else ''healthy'')"
    by blast
  then show ?thesis by simp
qed

text \<open>
  Claim C2. When the current feature set resolved for the window is empty,
  \<open>get_drift_report\<close> returns the empty report: no predictions, health \<open>unknown\<close> (which
  is not \<open>healthy\<close>), the three flags false, no feature result, no alert and no
  prediction drift. Drift detection plays no part: the result is the same for every
  baseline frame, every threshold and every KS library.
\<close>

theorem empty_window_report:
  assumes "drift_window cfg w hours = (s, e)"
    and "get_baseline_features w = Inr baseline_df"
    and "get_current_features w s e = Inr current_df"
    and "n_rows current_df = 0"
  shows "get_drift_report cfg w hours = Inr (empty_report w cfg s e) \<and>
         total_predictions (empty_report w cfg s e) = 0 \<and>
         health (overall_status (empty_report w cfg s e)) = ''unknown'' \<and>
         health (overall_status (empty_report w cfg s e)) \<noteq> ''healthy'' \<and>
         \<not> data_drift_detected (overall_status (empty_report w cfg s e)) \<and>
         \<not> concept_drift_detected (overall_status (empty_report w cfg s e)) \<and>
         \<not> performance_degraded (overall_status (empty_report w cfg s e)) \<and>
         feature_drift (empty_report w cfg s e) = [] \<and>
         alerts (empty_report w cfg s e) = [] \<and>
         prediction_drift (empty_report w cfg s e) = None"
  using assms by (simp add: get_drift_report_def empty_report_def)

theorem empty_window_report_witness:
  "drift_window default_settings (sample_env half_rows []) (Some 2) = (1699992800, 1700000000) \<and>
   get_baseline_features (sample_env half_rows []) = Inr (DataFrame half_rows) \<and>
   get_current_features (sample_env half_rows []) 1699992800 1700000000 = Inr empty_DataFrame \<and>
   n_rows empty_DataFrame = 0 \<and>
   get_drift_report default_settings (sample_env half_rows []) (Some 2) =
     Inr (empty_report (sample_env half_rows []) default_settings 1699992800 1700000000) \<and>
   health (overall_status
     (empty_report (sample_env half_rows []) default_settings 1699992800 1700000000)) = ''unknown''"
proof -
  have w: "drift_window default_settings (sample_env half_rows []) (Some 2)
             = (1699992800, 1700000000)"
    by (simp add: drift_window_def sample_env_def)
  have n: "n_rows empty_DataFrame = 0" by (simp add: empty_DataFrame_def)
  from empty_window_report[OF w sample_env_baseline sample_env_current_empty n]
    w n sample_env_baseline[of "[]"] sample_env_current_empty[of half_rows]
  show ?thesis by simp
qed


text \<open>
  Claim C8. The persistence step cannot make the call fail: a \<open>try\<close> of the shape of
  \<open>_store_drift_report\<close> ends normally whatever its body raises, and
  \<open>_store_drift_report\<close> itself (whose body is \<open>pass\<close>) returns normally on every report.
  So whenever the steps before it succeed on a window that is not empty,
  \<open>get_drift_report\<close> returns the fully computed report to its caller: the feature
  results of the detector, the prediction drift, the metrics, the status derived from
  them, the alerts, the window and the number of rows, unchanged.
\<close>

theorem persist_failure_contained:
  assumes "drift_window cfg w hours = (s, e)"
    and "get_baseline_features w = Inr b"
    and "get_current_features w s e = Inr c"
    and "n_rows c \<noteq> 0"
    and "detect_feature_drift (DriftDetector (PSI_THRESHOLD cfg) (KS_THRESHOLD cfg)) (ks_2samp w)
           b c None = Inr fd"
    and "get_predictions w s e = Inr ps"
    and "pd = (if length ps > 0
               then Some (detect_prediction_drift
                            (DriftDetector (PSI_THRESHOLD cfg) (KS_THRESHOLD cfg)) (ks_2samp w)
                            (replicate (length ps) (Num 0.02)) ps)
               else None)"
    and "calculate_performance_metrics w s e = Inr m"
  shows "try_log_error body = Inr () \<and>
         store_drift_report any_report = Inr () \<and>
         get_drift_report cfg w hours =
           Inr \<lparr>report_timestamp = utcnow w (Suc (length (generate_alerts w fd pd))),
                time_window = (s, e),
                total_predictions = n_rows c,
                model_version = MODEL_VERSION cfg,
                overall_status =
                  \<lparr>health = determine_overall_status fd pd,
                   data_drift_detected = data_drift fd,
                   concept_drift_detected = concept_drift pd,
                   performance_degraded = False\<rparr>,
                feature_drift = fd,
                prediction_drift = pd,
                performance_metrics = Some m,
                alerts = generate_alerts w fd pd\<rparr>"
  using assms
  by (simp add: try_log_error_returns store_drift_report_returns get_drift_report_def Let_def)

theorem persist_failure_contained_witness:
  "try_log_error (Inl (ExternalError ''store not available'')) = Inr () \<and>
   (\<exists>report. get_drift_report default_settings (sample_env half_rows skewed_rows) None = Inr report \<and>
      total_predictions report = 10 \<and>
      map severity (feature_drift report) = [High] \<and>
      health (overall_status report) = determine_overall_status (feature_drift report)
                                         (prediction_drift report) \<and>
      performance_metrics report =
        Some \<lparr>accuracy = Some 0, precision = Some 0, recall = Some 0, f1_score = Some 0,
              auc_roc = None\<rparr>)"
proof -
  let ?cfg = "default_settings"
  let ?w = "sample_env half_rows skewed_rows"
  let ?d = "DriftDetector (PSI_THRESHOLD ?cfg) (KS_THRESHOLD ?cfg)"
  obtain s e where win: "drift_window ?cfg ?w None = (s, e)"
    by (cases "drift_window ?cfg ?w None")
  have ks: "ks_2samp ?w = calm_ks" by (simp add: sample_env_def)
  from skew_detect[of "PSI_THRESHOLD ?cfg" "KS_THRESHOLD ?cfg" calm_ks] obtain r where
    r: "detect_feature_drift ?d (ks_2samp ?w) (DataFrame half_rows) (DataFrame skewed_rows) None
          = Inr [r]" "severity r = High"
    unfolding ks by blast
  have nr: "n_rows (DataFrame skewed_rows) \<noteq> 0" by (simp add: DataFrame_skewed)
  from persist_failure_contained[OF win sample_env_baseline sample_env_current nr r(1)
      sample_env_predictions refl sample_env_metrics,
      of "Inl (ExternalError ''store not available'')" undefined] r(2)
  show ?thesis by (simp add: DataFrame_skewed)
qed

text \<open>
  Claim C10. Every report that \<open>get_drift_report\<close> returns, empty or full, has
  \<open>performance_degraded\<close> false, whatever the performance metrics are.
\<close>

theorem performance_degraded_never_set:
  assumes "get_drift_report cfg w hours = Inr report"
  shows "\<not> performance_degraded (overall_status report)"
proof -
  obtain s e where win: "drift_window cfg w hours = (s, e)"
    by (cases "drift_window cfg w hours")
  from get_drift_report_Inr[OF assms win] show ?thesis
    by (auto simp: empty_report_def split: if_splits)
qed

theorem performance_degraded_never_set_witness:
  "\<exists>report. get_drift_report (default_settings\<lparr>PSI_THRESHOLD := 1 / 4\<rparr>)
                (sample_env half_rows skewed_rows) None = Inr report \<and>
     performance_metrics report =
       Some \<lparr>accuracy = Some 0, precision = Some 0, recall = Some 0, f1_score = Some 0,
             auc_roc = None\<rparr> \<and>
     \<not> performance_degraded (overall_status report)"
proof -
  from sample_report[of "1 / 4"] obtain report where
    rep: "get_drift_report (default_settings\<lparr>PSI_THRESHOLD := 1 / 4\<rparr>)
            (sample_env half_rows skewed_rows) None = Inr report"
      "performance_metrics report =
       Some \<lparr>accuracy = Some 0, precision = Some 0, recall = Some 0, f1_score = Some 0,
             auc_roc = None\<rparr>"
    by blast
  from performance_degraded_never_set[OF rep(1)] rep show ?thesis by blast
qed

section \<open>Properties of the scheduler\<close>

lemma calculate_metrics_run:
  "\<exists>tr'. calculate_metrics w tr = (Inr (), tr @ CountPredictions # tr') \<and>
         filter is_step_entry tr' = []"
  by (auto simp: calculate_metrics_def try_except_def io_bind_def do_call_def io_return_def
      Let_def split: sum.splits option.splits)

lemma check_drift_run:
  "\<exists>tr'. check_drift w tr = (Inr (), tr @ SelectAvgProba # tr') \<and>
         filter is_step_entry tr' = []"
  by (auto simp: check_drift_def try_except_def io_bind_def do_call_def io_return_def
      Let_def split: sum.splits option.splits)

lemma update_system_health_run:
  "\<exists>tr' r. update_system_health w tr = (r, tr @ ImportPsutil # tr') \<and>
         filter is_step_entry tr' = []"
  by (auto simp: update_system_health_def try_except_def io_bind_def do_call_def io_return_def
      Let_def split: sum.splits option.splits)

lemma run_monitoring_cycle_run:
  assumes "w_session w = Inr ()"
  shows "filter is_step_entry (snd (run_monitoring_cycle w [])) =
           [CountPredictions, SelectAvgProba, ImportPsutil] \<and>
         (\<forall>e. fst (run_monitoring_cycle w []) = Inl e \<longrightarrow>
               w_rollback w = Inl e \<or> w_close w = Inl e)"
proof -
  obtain t1 where t1: "calculate_metrics w [NewSession] = (Inr (), [NewSession] @ CountPredictions # t1)"
    "filter is_step_entry t1 = []"
    using calculate_metrics_run[of w "[NewSession]"] by blast
  let ?tr1 = "[NewSession] @ CountPredictions # t1"
  obtain t2 where t2: "check_drift w ?tr1 = (Inr (), ?tr1 @ SelectAvgProba # t2)"
    "filter is_step_entry t2 = []"
    using check_drift_run[of w ?tr1] by blast
  let ?tr2 = "?tr1 @ SelectAvgProba # t2"
  obtain t3 r where t3: "update_system_health w ?tr2 = (r, ?tr2 @ ImportPsutil # t3)"
    "filter is_step_entry t3 = []"
    using update_system_health_run[of w ?tr2] by blast
  from assms t1 t2 t3 show ?thesis
    by (cases r; cases "w_commit w"; cases "w_rollback w"; cases "w_close w")
       (auto simp: run_monitoring_cycle_def io_bind_def do_call_def try_except_def
          try_finally_def)
qed

lemma run_monitoring_cycle_no_session:
  assumes "w_session w = Inl e"
  shows "run_monitoring_cycle w [] = (Inl e, [NewSession])"
  using assms by (simp add: run_monitoring_cycle_def io_bind_def do_call_def)

lemma main_loop_no_interrupt:
  "Interrupt \<notin> set rounds \<Longrightarrow> main_loop rounds = Running"
proof (induction rounds)
  case Nil
  show ?case by simp
next
  case (Cons r rounds)
  then have "r \<noteq> Interrupt" "main_loop rounds = Running" by auto
  then show ?case
    by (cases r) (simp_all add: run_pending_def split: sum.splits)
qed

text \<open>
  Claim C9 (as amended). Once the session exists, each of the three steps of a cycle is
  entered exactly once and in order, whatever any call of any step does. No exception
  raised inside a step, or by the commit, leaves \<open>run_monitoring_cycle\<close>: an exception
  that leaves it was raised by creating, rolling back or closing the session, and when
  these three succeed the cycle returns normally. The loop of \<open>start\<close> goes on after
  every cycle it runs, failed or not, and only the user's interrupt ends it; so once
  the first cycle, which \<open>start\<close> runs before the loop, has returned, no failed cycle
  ends the worker.
\<close>

theorem cycle_failure_isolation:
  "(w_session w = Inr () \<longrightarrow>
      filter is_step_entry (snd (run_monitoring_cycle w [])) =
        [CountPredictions, SelectAvgProba, ImportPsutil]) \<and>
   (fst (run_monitoring_cycle w []) = Inl e \<longrightarrow>
      w_session w = Inl e \<or> w_rollback w = Inl e \<or> w_close w = Inl e) \<and>
   (w_session w = Inr () \<and> w_rollback w = Inr () \<and> w_close w = Inr () \<longrightarrow>
      fst (run_monitoring_cycle w []) = Inr ()) \<and>
   (Interrupt \<notin> set rounds \<longrightarrow> main_loop rounds = Running) \<and>
   (fst (run_monitoring_cycle first []) = Inr () \<and> Interrupt \<notin> set rounds \<longrightarrow>
      start first rounds = Running)"
proof -
  have loop: "Interrupt \<notin> set rounds \<longrightarrow> main_loop rounds = Running"
    by (simp add: main_loop_no_interrupt)
  have st: "fst (run_monitoring_cycle first []) = Inr () \<and> Interrupt \<notin> set rounds \<longrightarrow>
      start first rounds = Running"
    by (simp add: start_def main_loop_no_interrupt)
  show ?thesis
  proof (cases "w_session w")
    case (Inl x)
    from run_monitoring_cycle_no_session[OF this] Inl loop st show ?thesis
      by simp
  next
    case (Inr u)
    then have s: "w_session w = Inr ()" by simp
    from run_monitoring_cycle_run[OF s] s loop st show ?thesis
      by (cases "fst (run_monitoring_cycle w [])") auto
  qed
qed

theorem cycle_failure_isolation_witness:
  "w_session failing_world = Inr () \<and>
   w_pred_count failing_world = Inl (ExternalError ''connection lost'') \<and>
   run_monitoring_cycle failing_world [] =
     (Inr (), [NewSession, CountPredictions, SelectAvgProba, InsertAlert (1 / 2), ImportPsutil,
               CpuPercent, VirtualMemory, InsertHealth 12 40, Commit, Close]) \<and>
   filter is_step_entry (snd (run_monitoring_cycle failing_world [])) =
     [CountPredictions, SelectAvgProba, ImportPsutil] \<and>
   fst (run_monitoring_cycle broken_session_world []) = Inl (ExternalError ''rollback failed'') \<and>
   w_rollback broken_session_world = Inl (ExternalError ''rollback failed'') \<and>
   run_pending (Due broken_session_world) = Raised (ExternalError ''rollback failed'') \<and>
   main_loop [Due failing_world, Idle, Due broken_session_world] = Running \<and>
   start failing_world [Due failing_world, Idle, Due broken_session_world] = Running"
proof -
  let ?rounds = "[Due failing_world, Idle, Due broken_session_world]"
  have r: "run_monitoring_cycle failing_world [] =
     (Inr (), [NewSession, CountPredictions, SelectAvgProba, InsertAlert (1 / 2), ImportPsutil,
               CpuPercent, VirtualMemory, InsertHealth 12 40, Commit, Close])"
    by (simp add: run_monitoring_cycle_def calculate_metrics_def check_drift_def
        update_system_health_def io_bind_def do_call_def io_return_def try_except_def
        try_finally_def failing_world_def)
  have s: "w_session failing_world = Inr ()" "w_rollback failing_world = Inr ()"
    "w_close failing_world = Inr ()"
    "w_pred_count failing_world = Inl (ExternalError ''connection lost'')"
    by (simp_all add: failing_world_def)
  have b: "fst (run_monitoring_cycle broken_session_world []) = Inl (ExternalError ''rollback failed'')"
    by (simp add: run_monitoring_cycle_def calculate_metrics_def check_drift_def
        update_system_health_def io_bind_def do_call_def io_return_def try_except_def
        try_finally_def broken_session_world_def failing_world_def)
  have bs: "w_session broken_session_world = Inr ()" "w_close broken_session_world = Inr ()"
    by (simp_all add: broken_session_world_def failing_world_def)
  have ni: "Interrupt \<notin> set ?rounds" by simp
  have f: "fst (run_monitoring_cycle failing_world []) = Inr ()" using r by simp
  from cycle_failure_isolation[of failing_world undefined ?rounds failing_world] s ni f
  have a1: "filter is_step_entry (snd (run_monitoring_cycle failing_world [])) =
     [CountPredictions, SelectAvgProba, ImportPsutil] \<and>
     main_loop ?rounds = Running \<and> start failing_world ?rounds = Running" by simp
  from cycle_failure_isolation[of broken_session_world "ExternalError ''rollback failed''" "[]"
      failing_world] b bs
  have a2: "w_rollback broken_session_world = Inl (ExternalError ''rollback failed'')" by simp
  have rp: "run_pending (Due broken_session_world) = Raised (ExternalError ''rollback failed'')"
    using b by (simp add: run_pending_def)
  from a1 a2 r s b rp show ?thesis by simp
qed

text \<open>
  The claim as stated fails when the commit raises and the rollback in the handler
  raises as well: the exception leaves \<open>run_monitoring_cycle\<close>, and when this happens in
  the first cycle it leaves \<open>start\<close> before the loop is entered.
\<close>

theorem cycle_propagates_counterexample:
  "fst (run_monitoring_cycle broken_session_world []) = Inl (ExternalError ''rollback failed'') \<and>
   start broken_session_world [Due failing_world] = Crashed (ExternalError ''rollback failed'')"
  by (simp add: start_def run_monitoring_cycle_def calculate_metrics_def check_drift_def
      update_system_health_def io_bind_def do_call_def io_return_def try_except_def
      try_finally_def broken_session_world_def failing_world_def)

end
